theory Spec2Isabelle
  imports Complex_Main
begin

section \<open>Street tree planting assistant: benefit model and scenario store\<close>

text \<open>
  A shallow embedding of \<^verbatim>\<open>src/main.py\<close>: the species table, the benefit
  functions, and the handlers that add, update, delete and project the planted trees of
  the in-memory scenario.

  Numbers. Python's \<^verbatim>\<open>float\<close> is modelled by \<^typ>\<open>real\<close>: rounding, overflow to
  infinity and NaN are not modelled. Python's \<^verbatim>\<open>int\<close> is \<^typ>\<open>int\<close>.
  Strings are \<^typ>\<open>string\<close>.

  State and time. The global \<^verbatim>\<open>SCENARIO\<close> is passed to every handler and returned
  by it; the reading of the clock, \<^verbatim>\<open>time.time()\<close>, is an argument of the handler
  that takes it.
\<close>

subsection \<open>Species library\<close>

text \<open>One entry of \<^verbatim>\<open>SPECIES_DB\<close>; the key \<^verbatim>\<open>species_id\<close> is the field \<open>s_species_id\<close>.\<close>

record species =
  s_species_id :: string
  common :: string
  latin :: string
  dbh_growth_in_per_year :: real
  canopy_k_m_per_in :: real
  carbon_kg_per_in_dbh :: real
  stormwater_l_per_m2_canopy :: real
  pollution_g_per_m2_canopy :: real

definition red_maple :: species where
  "red_maple = \<lparr> s_species_id = ''red_maple'', common = ''Red Maple'', latin = ''Acer rubrum'',
     dbh_growth_in_per_year = 0.35, canopy_k_m_per_in = 0.45, carbon_kg_per_in_dbh = 3.0,
     stormwater_l_per_m2_canopy = 45.0, pollution_g_per_m2_canopy = 12.0 \<rparr>"

text \<open>The multiplication sign of the Latin name is written as its two UTF-8 bytes.\<close>

definition london_plane :: species where
  "london_plane = \<lparr> s_species_id = ''london_plane'', common = ''London Plane'',
     latin = ''Platanus '' @ [CHR 0xC3, CHR 0x97] @ '' acerifolia'',
     dbh_growth_in_per_year = 0.50, canopy_k_m_per_in = 0.55, carbon_kg_per_in_dbh = 4.2,
     stormwater_l_per_m2_canopy = 55.0, pollution_g_per_m2_canopy = 14.0 \<rparr>"

definition ginkgo :: species where
  "ginkgo = \<lparr> s_species_id = ''ginkgo'', common = ''Ginkgo'', latin = ''Ginkgo biloba'',
     dbh_growth_in_per_year = 0.25, canopy_k_m_per_in = 0.35, carbon_kg_per_in_dbh = 2.2,
     stormwater_l_per_m2_canopy = 35.0, pollution_g_per_m2_canopy = 9.0 \<rparr>"

definition SPECIES_DB :: "species list" where
  "SPECIES_DB = [red_maple, london_plane, ginkgo]"

text \<open>
  \<^verbatim>\<open>SPECIES_BY_ID = {s["species_id"]: s for s in SPECIES_DB}\<close>: the comprehension
  stores the entries from left to right, a later one replacing an earlier one of the same key.
\<close>

definition SPECIES_BY_ID :: "string \<rightharpoonup> species" where
  "SPECIES_BY_ID = fold (\<lambda>s m. m(s_species_id s \<mapsto> s)) SPECIES_DB Map.empty"

subsection \<open>Request payloads\<close>

text \<open>
  A payload is a \<^verbatim>\<open>Dict[str, Any]\<close>. The handlers look at a payload value only through
  the builtins \<^verbatim>\<open>float\<close>, \<^verbatim>\<open>int\<close> and \<^verbatim>\<open>str\<close>, so a value is
  modelled by what these three return on it: a number or the exception raised. \<^verbatim>\<open>str\<close>
  raises on no value a request body can hold.
\<close>

datatype pyexc = KeyError string | ValueError | TypeError | OverflowError

record pyval =
  py_float :: "pyexc + real"
  py_int :: "pyexc + int"
  py_str :: string

type_synonym payload = "string \<rightharpoonup> pyval"

text \<open>\<^verbatim>\<open>int(x)\<close> of a float \<open>x\<close> truncates towards zero.\<close>

definition trunc_real :: "real \<Rightarrow> int" where
  "trunc_real x = (if 0 \<le> x then \<lfloor>x\<rfloor> else \<lceil>x\<rceil>)"

text \<open>
  The values used below: a JSON number that is a float, one that is an integer, and a JSON
  string that is no numeral (both conversions raise \<^verbatim>\<open>ValueError\<close>). The text
  \<open>shown\<close> is what \<^verbatim>\<open>str\<close> prints for the number.
\<close>

definition json_float :: "real \<Rightarrow> string \<Rightarrow> pyval" where
  "json_float x shown = \<lparr> py_float = Inr x, py_int = Inr (trunc_real x), py_str = shown \<rparr>"

definition json_int :: "int \<Rightarrow> string \<Rightarrow> pyval" where
  "json_int i shown = \<lparr> py_float = Inr (real_of_int i), py_int = Inr i, py_str = shown \<rparr>"

definition json_text :: "string \<Rightarrow> pyval" where
  "json_text s = \<lparr> py_float = Inl ValueError, py_int = Inl ValueError, py_str = s \<rparr>"

text \<open>\<^verbatim>\<open>payload[key]\<close> and \<^verbatim>\<open>payload.get(key, default)\<close>.\<close>

definition payload_item :: "payload \<Rightarrow> string \<Rightarrow> pyexc + pyval" where
  "payload_item payload key =
     (case payload key of None \<Rightarrow> Inl (KeyError key) | Some v \<Rightarrow> Inr v)"

definition payload_get :: "payload \<Rightarrow> string \<Rightarrow> pyval \<Rightarrow> pyval" where
  "payload_get payload key dflt = (case payload key of None \<Rightarrow> dflt | Some v \<Rightarrow> v)"

subsection \<open>Errors\<close>

text \<open>
  The detail of an \<^verbatim>\<open>HTTPException\<close> is a fixed text, or
  \<^verbatim>\<open>f"Bad payload: {e}"\<close>, kept as the exception \<open>e\<close> it formats. A handler raises
  an \<^verbatim>\<open>HTTPException\<close> with its status code, or lets a builtin's exception through.
\<close>

datatype detail = Text string | BadPayload pyexc

datatype error = HTTPException nat detail | Uncaught pyexc

subsection \<open>Utility and modelling functions\<close>

text \<open>Python's \<^verbatim>\<open>max(a, b)\<close> keeps \<open>a\<close> unless \<open>b\<close> is greater.\<close>

definition py_max :: "real \<Rightarrow> real \<Rightarrow> real" where
  "py_max a b = (if a < b then b else a)"

text \<open>\<^verbatim>\<open>SPECIES_BY_ID[species_id]\<close> raises \<^verbatim>\<open>KeyError\<close> on an unknown key.\<close>

definition species_lookup :: "string \<Rightarrow> error + species" where
  "species_lookup species_id =
     (case SPECIES_BY_ID species_id of
        None \<Rightarrow> Inl (Uncaught (KeyError species_id))
      | Some s \<Rightarrow> Inr s)"

definition canopy_radius_m :: "string \<Rightarrow> real \<Rightarrow> error + real" where
  "canopy_radius_m species_id dbh_in =
     (case species_lookup species_id of
        Inl e \<Rightarrow> Inl e
      | Inr s \<Rightarrow> Inr (py_max 0.5 (canopy_k_m_per_in s * py_max 0.0 dbh_in)))"

definition canopy_area_m2 :: "real \<Rightarrow> real" where
  "canopy_area_m2 radius_m = pi * radius_m * radius_m"

text \<open>The dictionary that \<^verbatim>\<open>annual_benefits\<close> returns.\<close>

record benefits =
  b_canopy_radius_m :: real
  b_canopy_area_m2 :: real
  b_carbon_kg_per_year :: real
  b_stormwater_l_per_year :: real
  b_pollution_g_per_year :: real

definition annual_benefits :: "string \<Rightarrow> real \<Rightarrow> error + benefits" where
  "annual_benefits species_id dbh_in =
     (case species_lookup species_id of
        Inl e \<Rightarrow> Inl e
      | Inr s \<Rightarrow>
          (case canopy_radius_m species_id dbh_in of
             Inl e \<Rightarrow> Inl e
           | Inr r \<Rightarrow>
               (let a = canopy_area_m2 r;
                    carbon = carbon_kg_per_in_dbh s * py_max 0.0 dbh_in;
                    stormwater = stormwater_l_per_m2_canopy s * a;
                    pollution = pollution_g_per_m2_canopy s * a
                in Inr \<lparr> b_canopy_radius_m = r, b_canopy_area_m2 = a,
                          b_carbon_kg_per_year = carbon,
                          b_stormwater_l_per_year = stormwater,
                          b_pollution_g_per_year = pollution \<rparr>)))"

definition project_tree :: "string \<Rightarrow> real \<Rightarrow> int \<Rightarrow> error + benefits" where
  "project_tree species_id dbh_in years =
     (case species_lookup species_id of
        Inl e \<Rightarrow> Inl e
      | Inr s \<Rightarrow>
          (let dbh_t = dbh_in + dbh_growth_in_per_year s * real_of_int years
           in annual_benefits species_id dbh_t))"

subsection \<open>In-memory scenario state\<close>

text \<open>
  A planted tree is the dictionary that \<^verbatim>\<open>add_planted_tree\<close> builds; its keys
  \<^verbatim>\<open>id\<close>, \<^verbatim>\<open>lon\<close>, ... are the fields \<open>t_id\<close>, \<open>t_lon\<close>, ...
\<close>

record tree =
  t_id :: string
  t_lon :: real
  t_lat :: real
  t_species_id :: string
  t_dbh_in :: real
  t_planting_year :: int
  t_benefits :: benefits

text \<open>
  \<^verbatim>\<open>SCENARIO\<close>: the keys \<^verbatim>\<open>id\<close>, \<^verbatim>\<open>created_at\<close> and
  \<^verbatim>\<open>planted_trees\<close>. A Python dictionary keeps its keys in insertion order, and the
  handlers iterate over it, so \<^verbatim>\<open>planted_trees\<close> is an association list in that
  order.
\<close>

record scenario =
  sc_id :: string
  created_at :: real
  planted_trees :: "(string \<times> tree) list"

definition SCENARIO :: "real \<Rightarrow> scenario" where
  "SCENARIO now = \<lparr> sc_id = ''default'', created_at = now, planted_trees = [] \<rparr>"

text \<open>
  The dictionary operations the handlers use: \<^verbatim>\<open>k in d\<close>, \<^verbatim>\<open>d[k]\<close> on a key
  that is present, \<^verbatim>\<open>d[k] = v\<close> (a present key keeps its place, a new key goes last),
  \<^verbatim>\<open>del d[k]\<close> and \<^verbatim>\<open>d.values()\<close>; \<^verbatim>\<open>len(d)\<close> is \<^const>\<open>length\<close>.
\<close>

definition dict_contains :: "('k \<times> 'v) list \<Rightarrow> 'k \<Rightarrow> bool" where
  "dict_contains d k = (k \<in> set (map fst d))"

definition dict_get :: "('k \<times> 'v) list \<Rightarrow> 'k \<Rightarrow> 'v option" where
  "dict_get d k = map_of d k"

fun dict_set :: "('k \<times> 'v) list \<Rightarrow> 'k \<Rightarrow> 'v \<Rightarrow> ('k \<times> 'v) list" where
  "dict_set [] k v = [(k, v)]"
| "dict_set ((k', v') # d) k v = (if k' = k then (k, v) # d else (k', v') # dict_set d k v)"

definition dict_del :: "('k \<times> 'v) list \<Rightarrow> 'k \<Rightarrow> ('k \<times> 'v) list" where
  "dict_del d k = filter (\<lambda>p. fst p \<noteq> k) d"

definition dict_values :: "('k \<times> 'v) list \<Rightarrow> 'v list" where
  "dict_values d = map snd d"

text \<open>A dictionary has every key once.\<close>

definition dict_wf :: "('k \<times> 'v) list \<Rightarrow> bool" where
  "dict_wf d = distinct (map fst d)"

subsection \<open>Decimal text of an integer\<close>

text \<open>What an f-string prints for an \<^verbatim>\<open>int\<close>.\<close>

definition digit_char :: "nat \<Rightarrow> char" where
  "digit_char n = ''0123456789'' ! n"

fun str_nat :: "nat \<Rightarrow> string" where
  "str_nat n = (if n < 10 then [digit_char n] else str_nat (n div 10) @ [digit_char (n mod 10)])"

declare str_nat.simps [simp del]

definition str_int :: "int \<Rightarrow> string" where
  "str_int i = (if i < 0 then CHR ''-'' # str_nat (nat (- i)) else str_nat (nat i))"

text \<open>The number a decimal text stands for; it reads back what \<open>str_nat\<close> prints.\<close>

definition digit_value :: "char \<Rightarrow> nat" where
  "digit_value c = of_char c - 48"

definition digits_value :: "string \<Rightarrow> nat" where
  "digits_value s = foldl (\<lambda>n c. 10 * n + digit_value c) 0 s"

subsection \<open>Routes\<close>

text \<open>
  Every handler takes the scenario and returns its response, or the exception it raises,
  together with the scenario it leaves behind. \<^verbatim>\<open>{"ok": True, "tree": tree}\<close> is
  modelled by the tree, \<^verbatim>\<open>{"ok": True}\<close> by the unit value; the keys of the
  other responses are fields \<open>r_...\<close>.
\<close>

record scenario_response =
  r_scenario_id :: string
  r_planted_trees :: "tree list"

definition get_scenario :: "scenario \<Rightarrow> scenario_response \<times> scenario" where
  "get_scenario sc =
     (let planted = dict_values (planted_trees sc)
      in (\<lparr> r_scenario_id = sc_id sc, r_planted_trees = planted \<rparr>, sc))"

text \<open>The \<^verbatim>\<open>try\<close> block of \<^verbatim>\<open>add_planted_tree\<close>, statement by statement.\<close>

definition add_fields :: "payload \<Rightarrow> pyexc + (real \<times> real \<times> string \<times> real \<times> int)" where
  "add_fields payload =
     (case payload_item payload ''lon'' of Inl e \<Rightarrow> Inl e | Inr v_lon \<Rightarrow>
      case py_float v_lon of Inl e \<Rightarrow> Inl e | Inr lon \<Rightarrow>
      case payload_item payload ''lat'' of Inl e \<Rightarrow> Inl e | Inr v_lat \<Rightarrow>
      case py_float v_lat of Inl e \<Rightarrow> Inl e | Inr lat \<Rightarrow>
      let species_id = py_str (payload_get payload ''species_id'' (json_text ''red_maple'')) in
      case py_float (payload_get payload ''dbh_in'' (json_float 2.0 ''2.0'')) of
        Inl e \<Rightarrow> Inl e | Inr dbh_in \<Rightarrow>
      case py_int (payload_get payload ''planting_year'' (json_int 2026 ''2026'')) of
        Inl e \<Rightarrow> Inl e | Inr planting_year \<Rightarrow>
      Inr (lon, lat, species_id, dbh_in, planting_year))"

text \<open>
  \<^verbatim>\<open>f"planted_{int(time.time()*1000)}_{len(SCENARIO['planted_trees'])+1}"\<close>, where
  \<open>now\<close> is what \<^verbatim>\<open>time.time()\<close> returns.
\<close>

definition new_tree_id :: "real \<Rightarrow> scenario \<Rightarrow> string" where
  "new_tree_id now sc =
     ''planted_'' @ str_int (trunc_real (now * 1000)) @ ''_''
       @ str_int (int (length (planted_trees sc)) + 1)"

definition add_planted_tree :: "real \<Rightarrow> scenario \<Rightarrow> payload \<Rightarrow> (error + tree) \<times> scenario" where
  "add_planted_tree now sc payload =
     (case add_fields payload of
        Inl e \<Rightarrow> (Inl (HTTPException 400 (BadPayload e)), sc)
      | Inr (lon, lat, species_id, dbh_in, planting_year) \<Rightarrow>
          if SPECIES_BY_ID species_id = None
          then (Inl (HTTPException 400 (Text ''Unknown species_id'')), sc)
          else
            (let tid = new_tree_id now sc in
             case annual_benefits species_id dbh_in of
               Inl e \<Rightarrow> (Inl e, sc)
             | Inr benefits \<Rightarrow>
                 (let tree = \<lparr> t_id = tid, t_lon = lon, t_lat = lat,
                               t_species_id = species_id, t_dbh_in = dbh_in,
                               t_planting_year = planting_year, t_benefits = benefits \<rparr>
                  in (Inr tree,
                      sc\<lparr> planted_trees := dict_set (planted_trees sc) tid tree \<rparr>))))"

text \<open>
  \<^verbatim>\<open>update_planted_tree\<close> assigns to the stored dictionary \<open>t\<close> itself, one statement
  after the other. A statement maps the tree to the tree it leaves and the exception it
  raises, if any; a raised exception ends the sequence and keeps the assignments made so far.
\<close>

type_synonym stmt = "tree \<Rightarrow> error option \<times> tree"

definition then_stmt :: "stmt \<Rightarrow> stmt \<Rightarrow> stmt" where
  "then_stmt f g t = (case f t of (Some e, t') \<Rightarrow> (Some e, t') | (None, t') \<Rightarrow> g t')"

definition assign_lon :: "payload \<Rightarrow> stmt" where
  "assign_lon payload t =
     (case payload ''lon'' of None \<Rightarrow> (None, t)
      | Some v \<Rightarrow> (case py_float v of Inl e \<Rightarrow> (Some (Uncaught e), t)
                   | Inr x \<Rightarrow> (None, t\<lparr> t_lon := x \<rparr>)))"

definition assign_lat :: "payload \<Rightarrow> stmt" where
  "assign_lat payload t =
     (case payload ''lat'' of None \<Rightarrow> (None, t)
      | Some v \<Rightarrow> (case py_float v of Inl e \<Rightarrow> (Some (Uncaught e), t)
                   | Inr x \<Rightarrow> (None, t\<lparr> t_lat := x \<rparr>)))"

definition assign_dbh_in :: "payload \<Rightarrow> stmt" where
  "assign_dbh_in payload t =
     (case payload ''dbh_in'' of None \<Rightarrow> (None, t)
      | Some v \<Rightarrow> (case py_float v of Inl e \<Rightarrow> (Some (Uncaught e), t)
                   | Inr x \<Rightarrow> (None, t\<lparr> t_dbh_in := x \<rparr>)))"

definition assign_planting_year :: "payload \<Rightarrow> stmt" where
  "assign_planting_year payload t =
     (case payload ''planting_year'' of None \<Rightarrow> (None, t)
      | Some v \<Rightarrow> (case py_int v of Inl e \<Rightarrow> (Some (Uncaught e), t)
                   | Inr y \<Rightarrow> (None, t\<lparr> t_planting_year := y \<rparr>)))"

definition assign_species_id :: "payload \<Rightarrow> stmt" where
  "assign_species_id payload t =
     (case payload ''species_id'' of None \<Rightarrow> (None, t)
      | Some v \<Rightarrow>
          (let sid = py_str v in
           if SPECIES_BY_ID sid = None
           then (Some (HTTPException 400 (Text ''Unknown species_id'')), t)
           else (None, t\<lparr> t_species_id := sid \<rparr>)))"

definition assign_benefits :: stmt where
  "assign_benefits t =
     (case annual_benefits (t_species_id t) (t_dbh_in t) of
        Inl e \<Rightarrow> (Some e, t)
      | Inr b \<Rightarrow> (None, t\<lparr> t_benefits := b \<rparr>))"

definition update_body :: "payload \<Rightarrow> stmt" where
  "update_body payload =
     then_stmt (assign_lon payload)
    (then_stmt (assign_lat payload)
    (then_stmt (assign_dbh_in payload)
    (then_stmt (assign_planting_year payload)
    (then_stmt (assign_species_id payload)
     assign_benefits))))"

text \<open>
  The stored tree is written back where it stands: \<open>t\<close> is the dictionary in the store,
  not a copy, so the store holds whatever the statements have assigned when the handler
  returns or raises.
\<close>

definition update_planted_tree ::
  "scenario \<Rightarrow> string \<Rightarrow> payload \<Rightarrow> (error + tree) \<times> scenario" where
  "update_planted_tree sc tree_id payload =
     (case dict_get (planted_trees sc) tree_id of
        None \<Rightarrow> (Inl (HTTPException 404 (Text ''Tree not found'')), sc)
      | Some t \<Rightarrow>
          (case update_body payload t of
             (r, t') \<Rightarrow>
               (case r of Some e \<Rightarrow> Inl e | None \<Rightarrow> Inr t',
                sc\<lparr> planted_trees := dict_set (planted_trees sc) tree_id t' \<rparr>)))"

definition delete_planted_tree :: "scenario \<Rightarrow> string \<Rightarrow> (error + unit) \<times> scenario" where
  "delete_planted_tree sc tree_id =
     (if dict_contains (planted_trees sc) tree_id
      then (Inr (), sc\<lparr> planted_trees := dict_del (planted_trees sc) tree_id \<rparr>)
      else (Inr (), sc))"

text \<open>
  The response of \<^verbatim>\<open>scenario_projection\<close>. The key \<^verbatim>\<open>canopy_area_m2\<close> of
  the totals is the field \<open>canopy_area_m2_total\<close>.
\<close>

record totals =
  carbon_kg_per_year :: real
  stormwater_l_per_year :: real
  pollution_g_per_year :: real
  canopy_area_m2_total :: real

record tree_projection =
  p_id :: string
  projection :: benefits

record projection_response =
  r_horizon_years :: int
  r_total :: totals
  r_per_tree :: "tree_projection list"

text \<open>
  The \<^verbatim>\<open>for\<close> loop over \<^verbatim>\<open>SCENARIO["planted_trees"].values()\<close>, with the two
  variables it updates (\<^verbatim>\<open>total\<close> is \<open>tot\<close>). The stored \<^verbatim>\<open>dbh_in\<close> is
  a float, so \<^verbatim>\<open>float\<close> returns it as it is.
\<close>

fun projection_loop ::
  "int \<Rightarrow> tree list \<Rightarrow> totals \<Rightarrow> tree_projection list
     \<Rightarrow> error + (totals \<times> tree_projection list)" where
  "projection_loop horizon [] tot per_tree = Inr (tot, per_tree)"
| "projection_loop horizon (t # ts) tot per_tree =
     (case project_tree (t_species_id t) (t_dbh_in t) horizon of
        Inl e \<Rightarrow> Inl e
      | Inr proj \<Rightarrow>
          projection_loop horizon ts
            (tot\<lparr> carbon_kg_per_year := carbon_kg_per_year tot + b_carbon_kg_per_year proj,
                    stormwater_l_per_year :=
                      stormwater_l_per_year tot + b_stormwater_l_per_year proj,
                    pollution_g_per_year :=
                      pollution_g_per_year tot + b_pollution_g_per_year proj,
                    canopy_area_m2_total :=
                      canopy_area_m2_total tot + b_canopy_area_m2 proj \<rparr>)
            (per_tree @ [\<lparr> p_id = t_id t, projection = proj \<rparr>]))"

definition scenario_projection ::
  "scenario \<Rightarrow> int \<Rightarrow> (error + projection_response) \<times> scenario" where
  "scenario_projection sc horizon =
     (if horizon \<notin> {5, 10, 15, 20}
      then (Inl (HTTPException 400 (Text ''horizon must be one of 5,10,15,20'')), sc)
      else
        (let tot = \<lparr> carbon_kg_per_year = 0.0, stormwater_l_per_year = 0.0,
                       pollution_g_per_year = 0.0, canopy_area_m2_total = 0.0 \<rparr>;
             per_tree = []
         in case projection_loop horizon (dict_values (planted_trees sc)) tot per_tree of
              Inl e \<Rightarrow> (Inl e, sc)
            | Inr (tot', per_tree') \<Rightarrow>
                (Inr \<lparr> r_horizon_years = horizon, r_total = tot', r_per_tree = per_tree' \<rparr>, sc)))"

text \<open>
  Every stored tree names a species of the catalog. The handlers keep it so: see
  \<open>species_valid_add\<close>, \<open>species_valid_update\<close> and \<open>species_valid_delete\<close> below.
\<close>

definition species_valid :: "scenario \<Rightarrow> bool" where
  "species_valid sc =
     list_all (\<lambda>t. SPECIES_BY_ID (t_species_id t) \<noteq> None) (dict_values (planted_trees sc))"

subsection \<open>Example requests\<close>

text \<open>
  Requests and clock readings for the evaluations below. Three trees are added, the first
  is deleted before the third is added, and the second and third additions fall into the
  same millisecond.
\<close>

definition payload_a :: payload where
  "payload_a = [''lon'' \<mapsto> json_float (-73.99) ''-73.99'',
                ''lat'' \<mapsto> json_float 40.67 ''40.67'']"

definition payload_b :: payload where
  "payload_b = [''lon'' \<mapsto> json_float (-73.98) ''-73.98'',
                ''lat'' \<mapsto> json_float 40.68 ''40.68'',
                ''species_id'' \<mapsto> json_text ''london_plane'',
                ''dbh_in'' \<mapsto> json_float 3.0 ''3.0'',
                ''planting_year'' \<mapsto> json_int 2027 ''2027'']"

definition payload_c :: payload where
  "payload_c = [''lon'' \<mapsto> json_float (-73.97) ''-73.97'',
                ''lat'' \<mapsto> json_float 40.66 ''40.66'',
                ''species_id'' \<mapsto> json_text ''ginkgo'',
                ''dbh_in'' \<mapsto> json_float 1.5 ''1.5'']"

definition payload_bad_lat :: payload where
  "payload_bad_lat = [''lon'' \<mapsto> json_float (-73.99) ''-73.99'',
                      ''lat'' \<mapsto> json_text ''north'']"

definition patch_unknown_species :: payload where
  "patch_unknown_species = [''dbh_in'' \<mapsto> json_float 10.0 ''10.0'',
                            ''species_id'' \<mapsto> json_text ''oak'']"

definition ex_now_a :: real where "ex_now_a = 1700000000.1005"

definition ex_now_b :: real where "ex_now_b = 1700000000.2502"

definition ex_now_c :: real where "ex_now_c = 1700000000.2507"

definition ex_sc0 :: scenario where
  "ex_sc0 = SCENARIO 1700000000"

definition ex_sc1 :: scenario where
  "ex_sc1 = snd (add_planted_tree ex_now_a ex_sc0 payload_a)"

definition ex_sc2 :: scenario where
  "ex_sc2 = snd (add_planted_tree ex_now_b ex_sc1 payload_b)"

definition ex_sc3 :: scenario where
  "ex_sc3 = snd (delete_planted_tree ex_sc2 ''planted_1700000000100_1'')"

definition ex_sc4 :: scenario where
  "ex_sc4 = snd (add_planted_tree ex_now_c ex_sc3 payload_c)"

definition ex_tree_a :: tree where
  "ex_tree_a = \<lparr> t_id = ''planted_1700000000100_1'', t_lon = -73.99, t_lat = 40.67,
       t_species_id = ''red_maple'', t_dbh_in = 2, t_planting_year = 2026,
       t_benefits = \<lparr> b_canopy_radius_m = 9/10, b_canopy_area_m2 = canopy_area_m2 (9/10),
           b_carbon_kg_per_year = 6,
           b_stormwater_l_per_year = 45 * canopy_area_m2 (9/10),
           b_pollution_g_per_year = 12 * canopy_area_m2 (9/10) \<rparr> \<rparr>"

definition ex_tree_b :: tree where
  "ex_tree_b = \<lparr> t_id = ''planted_1700000000250_2'', t_lon = -73.98, t_lat = 40.68,
       t_species_id = ''london_plane'', t_dbh_in = 3, t_planting_year = 2027,
       t_benefits = \<lparr> b_canopy_radius_m = 33/20, b_canopy_area_m2 = canopy_area_m2 (33/20),
           b_carbon_kg_per_year = 63/5,
           b_stormwater_l_per_year = 55 * canopy_area_m2 (33/20),
           b_pollution_g_per_year = 14 * canopy_area_m2 (33/20) \<rparr> \<rparr>"

definition ex_tree_c :: tree where
  "ex_tree_c = \<lparr> t_id = ''planted_1700000000250_2'', t_lon = -73.97, t_lat = 40.66,
       t_species_id = ''ginkgo'', t_dbh_in = 1.5, t_planting_year = 2026,
       t_benefits = \<lparr> b_canopy_radius_m = 21/40, b_canopy_area_m2 = canopy_area_m2 (21/40),
           b_carbon_kg_per_year = 33/10,
           b_stormwater_l_per_year = 35 * canopy_area_m2 (21/40),
           b_pollution_g_per_year = 9 * canopy_area_m2 (21/40) \<rparr> \<rparr>"

section \<open>Properties of the benefit model\<close>

lemma SPECIES_BY_ID_cases:
  "SPECIES_BY_ID sid = Some s \<Longrightarrow> s = red_maple \<or> s = london_plane \<or> s = ginkgo"
  by (simp add: SPECIES_BY_ID_def SPECIES_DB_def red_maple_def london_plane_def ginkgo_def
      split: if_splits)

lemma SPECIES_BY_ID_positive:
  assumes "SPECIES_BY_ID sid = Some s"
  shows "0 < canopy_k_m_per_in s" and "0 < carbon_kg_per_in_dbh s"
    and "0 < stormwater_l_per_m2_canopy s" and "0 < pollution_g_per_m2_canopy s"
    and "0 < dbh_growth_in_per_year s"
  using SPECIES_BY_ID_cases [OF assms]
  by (auto simp: red_maple_def london_plane_def ginkgo_def)

lemma py_max_eq_max: "py_max a b = max a b"
  by (simp add: py_max_def max_def)

lemma SPECIES_BY_ID_red_maple: "SPECIES_BY_ID ''red_maple'' = Some red_maple"
  by (simp add: SPECIES_BY_ID_def SPECIES_DB_def red_maple_def london_plane_def ginkgo_def)

lemma SPECIES_BY_ID_london_plane: "SPECIES_BY_ID ''london_plane'' = Some london_plane"
  by (simp add: SPECIES_BY_ID_def SPECIES_DB_def red_maple_def london_plane_def ginkgo_def)

lemma SPECIES_BY_ID_ginkgo: "SPECIES_BY_ID ''ginkgo'' = Some ginkgo"
  by (simp add: SPECIES_BY_ID_def SPECIES_DB_def red_maple_def london_plane_def ginkgo_def)

lemma SPECIES_BY_ID_oak: "SPECIES_BY_ID ''oak'' = None"
  by (simp add: SPECIES_BY_ID_def SPECIES_DB_def red_maple_def london_plane_def ginkgo_def)

lemma canopy_radius_m_catalog:
  "SPECIES_BY_ID sid = Some s \<Longrightarrow>
   canopy_radius_m sid d = Inr (max (1/2) (canopy_k_m_per_in s * max 0 d))"
  by (simp add: canopy_radius_m_def species_lookup_def py_max_eq_max)

text \<open>
  Claim C5. For a species of the catalog, \<^verbatim>\<open>canopy_radius_m\<close> returns
  \<open>max(0.5, k * max(0, d))\<close>, \<open>k\<close> the species' canopy coefficient, and the result is
  at least 0.5 metres; this holds for every diameter, the non-negative ones included.
\<close>

theorem canopy_radius_m_floor:
  assumes "SPECIES_BY_ID sid = Some s"
  shows "\<exists>r. canopy_radius_m sid d = Inr r
           \<and> r = max (1/2) (canopy_k_m_per_in s * max 0 d) \<and> 1/2 \<le> r"
  using assms by (simp add: canopy_radius_m_catalog)

theorem canopy_radius_m_floor_witness:
  "SPECIES_BY_ID ''red_maple'' = Some red_maple
   \<and> canopy_radius_m ''red_maple'' 2 = Inr (9/10)
   \<and> canopy_radius_m ''red_maple'' 0 = Inr (1/2)"
proof -
  have h: "SPECIES_BY_ID ''red_maple'' = Some red_maple" by (rule SPECIES_BY_ID_red_maple)
  from canopy_radius_m_floor [OF h, of 2] canopy_radius_m_floor [OF h, of 0] h
  show ?thesis by (auto simp: red_maple_def)
qed

lemma annual_benefits_catalog:
  "SPECIES_BY_ID sid = Some s \<Longrightarrow>
   annual_benefits sid d =
     Inr \<lparr> b_canopy_radius_m = max (1/2) (canopy_k_m_per_in s * max 0 d),
           b_canopy_area_m2 = canopy_area_m2 (max (1/2) (canopy_k_m_per_in s * max 0 d)),
           b_carbon_kg_per_year = carbon_kg_per_in_dbh s * max 0 d,
           b_stormwater_l_per_year = stormwater_l_per_m2_canopy s
              * canopy_area_m2 (max (1/2) (canopy_k_m_per_in s * max 0 d)),
           b_pollution_g_per_year = pollution_g_per_m2_canopy s
              * canopy_area_m2 (max (1/2) (canopy_k_m_per_in s * max 0 d)) \<rparr>"
  by (simp add: annual_benefits_def species_lookup_def canopy_radius_m_catalog py_max_eq_max Let_def)

lemma canopy_area_m2_mono:
  assumes "0 \<le> r1" "r1 \<le> r2"
  shows "canopy_area_m2 r1 \<le> canopy_area_m2 r2"
proof -
  have "r1 * r1 \<le> r2 * r2" using assms by (intro mult_mono) auto
  then have "pi * (r1 * r1) \<le> pi * (r2 * r2)" by (simp add: mult_left_mono)
  then show ?thesis by (simp add: canopy_area_m2_def mult.assoc)
qed

lemma radius_mono:
  assumes "0 < k" "d1 \<le> d2"
  shows "max (1/2) (k * max 0 d1) \<le> max (1/2) (k * max 0 (d2::real))"
proof -
  have "max 0 d1 \<le> max 0 d2" using assms(2) by simp
  then have "k * max 0 d1 \<le> k * max 0 d2" using assms(1) by (simp add: mult_left_mono)
  then show ?thesis by simp
qed

text \<open>
  Claim C6. For a species of the catalog and diameters \<open>d1 \<le> d2\<close>, both calls of
  \<^verbatim>\<open>annual_benefits\<close> return, and canopy area, carbon, stormwater and pollution of the
  first are at most those of the second.
\<close>

theorem annual_benefits_mono:
  assumes cat: "SPECIES_BY_ID sid = Some s" and le: "d1 \<le> d2"
  shows "\<exists>b1 b2. annual_benefits sid d1 = Inr b1 \<and> annual_benefits sid d2 = Inr b2
           \<and> b_canopy_area_m2 b1 \<le> b_canopy_area_m2 b2
           \<and> b_carbon_kg_per_year b1 \<le> b_carbon_kg_per_year b2
           \<and> b_stormwater_l_per_year b1 \<le> b_stormwater_l_per_year b2
           \<and> b_pollution_g_per_year b1 \<le> b_pollution_g_per_year b2"
proof -
  define r1 where "r1 = max (1/2) (canopy_k_m_per_in s * max 0 d1)"
  define r2 where "r2 = max (1/2) (canopy_k_m_per_in s * max 0 d2)"
  define c1 where "c1 = max 0 d1"
  define c2 where "c2 = max 0 d2"
  have r: "r1 \<le> r2"
    unfolding r1_def r2_def
    by (rule radius_mono [OF SPECIES_BY_ID_positive(1) [OF cat] le])
  have "0 \<le> r1" by (simp add: r1_def)
  then have a: "canopy_area_m2 r1 \<le> canopy_area_m2 r2"
    using r by (rule canopy_area_m2_mono)
  have "c1 \<le> c2" using le by (simp add: c1_def c2_def)
  then have c: "carbon_kg_per_in_dbh s * c1 \<le> carbon_kg_per_in_dbh s * c2"
    using SPECIES_BY_ID_positive(2) [OF cat] by (simp add: mult_left_mono)
  have w: "stormwater_l_per_m2_canopy s * canopy_area_m2 r1
         \<le> stormwater_l_per_m2_canopy s * canopy_area_m2 r2"
    using a SPECIES_BY_ID_positive(3) [OF cat] by (simp add: mult_left_mono)
  have p: "pollution_g_per_m2_canopy s * canopy_area_m2 r1
         \<le> pollution_g_per_m2_canopy s * canopy_area_m2 r2"
    using a SPECIES_BY_ID_positive(4) [OF cat] by (simp add: mult_left_mono)
  have e1: "annual_benefits sid d1 =
      Inr \<lparr> b_canopy_radius_m = r1, b_canopy_area_m2 = canopy_area_m2 r1,
            b_carbon_kg_per_year = carbon_kg_per_in_dbh s * c1,
            b_stormwater_l_per_year = stormwater_l_per_m2_canopy s * canopy_area_m2 r1,
            b_pollution_g_per_year = pollution_g_per_m2_canopy s * canopy_area_m2 r1 \<rparr>"
    unfolding r1_def c1_def by (rule annual_benefits_catalog [OF cat])
  have e2: "annual_benefits sid d2 =
      Inr \<lparr> b_canopy_radius_m = r2, b_canopy_area_m2 = canopy_area_m2 r2,
            b_carbon_kg_per_year = carbon_kg_per_in_dbh s * c2,
            b_stormwater_l_per_year = stormwater_l_per_m2_canopy s * canopy_area_m2 r2,
            b_pollution_g_per_year = pollution_g_per_m2_canopy s * canopy_area_m2 r2 \<rparr>"
    unfolding r2_def c2_def by (rule annual_benefits_catalog [OF cat])
  show ?thesis
    unfolding e1 e2 using a c w p by simp
qed

theorem annual_benefits_mono_witness:
  "SPECIES_BY_ID ''red_maple'' = Some red_maple \<and> (2::real) \<le> 4
   \<and> annual_benefits ''red_maple'' 2 =
        Inr \<lparr> b_canopy_radius_m = 9/10, b_canopy_area_m2 = pi * (81/100),
              b_carbon_kg_per_year = 6, b_stormwater_l_per_year = 45 * (pi * (81/100)),
              b_pollution_g_per_year = 12 * (pi * (81/100)) \<rparr>
   \<and> annual_benefits ''red_maple'' 4 =
        Inr \<lparr> b_canopy_radius_m = 9/5, b_canopy_area_m2 = pi * (81/25),
              b_carbon_kg_per_year = 12, b_stormwater_l_per_year = 45 * (pi * (81/25)),
              b_pollution_g_per_year = 12 * (pi * (81/25)) \<rparr>
   \<and> pi * (81/100) \<le> pi * (81/25)"
proof -
  have h: "SPECIES_BY_ID ''red_maple'' = Some red_maple" by (rule SPECIES_BY_ID_red_maple)
  have le: "(2::real) \<le> 4" by simp
  have e2: "annual_benefits ''red_maple'' 2 =
        Inr \<lparr> b_canopy_radius_m = 9/10, b_canopy_area_m2 = pi * (81/100),
              b_carbon_kg_per_year = 6, b_stormwater_l_per_year = 45 * (pi * (81/100)),
              b_pollution_g_per_year = 12 * (pi * (81/100)) \<rparr>"
    by (simp add: annual_benefits_catalog [OF h] red_maple_def canopy_area_m2_def)
  have e4: "annual_benefits ''red_maple'' 4 =
        Inr \<lparr> b_canopy_radius_m = 9/5, b_canopy_area_m2 = pi * (81/25),
              b_carbon_kg_per_year = 12, b_stormwater_l_per_year = 45 * (pi * (81/25)),
              b_pollution_g_per_year = 12 * (pi * (81/25)) \<rparr>"
    by (simp add: annual_benefits_catalog [OF h] red_maple_def canopy_area_m2_def)
  from annual_benefits_mono [OF h le] h e2 e4
  show ?thesis by simp
qed

text \<open>
  Claim C7. For a species of the catalog \<^verbatim>\<open>annual_benefits\<close> returns a snapshot for
  every diameter, and a negative diameter gives the snapshot of diameter zero.
\<close>

theorem annual_benefits_total_clamped:
  assumes "SPECIES_BY_ID sid = Some s"
  shows "(\<exists>b. annual_benefits sid d = Inr b)
       \<and> (d < 0 \<longrightarrow> annual_benefits sid d = annual_benefits sid 0)"
  using assms by (simp add: annual_benefits_catalog max_def)

theorem annual_benefits_total_clamped_witness:
  "SPECIES_BY_ID ''ginkgo'' = Some ginkgo \<and> (- 3::real) < 0
   \<and> annual_benefits ''ginkgo'' (- 3) = annual_benefits ''ginkgo'' 0
   \<and> annual_benefits ''ginkgo'' 0 =
        Inr \<lparr> b_canopy_radius_m = 1/2, b_canopy_area_m2 = pi * (1/4),
              b_carbon_kg_per_year = 0, b_stormwater_l_per_year = 35 * (pi * (1/4)),
              b_pollution_g_per_year = 9 * (pi * (1/4)) \<rparr>"
proof -
  have h: "SPECIES_BY_ID ''ginkgo'' = Some ginkgo"
    by (simp add: SPECIES_BY_ID_def SPECIES_DB_def red_maple_def london_plane_def ginkgo_def)
  have e0: "annual_benefits ''ginkgo'' 0 =
        Inr \<lparr> b_canopy_radius_m = 1/2, b_canopy_area_m2 = pi * (1/4),
              b_carbon_kg_per_year = 0, b_stormwater_l_per_year = 35 * (pi * (1/4)),
              b_pollution_g_per_year = 9 * (pi * (1/4)) \<rparr>"
    by (simp add: annual_benefits_catalog [OF h] ginkgo_def canopy_area_m2_def)
  from annual_benefits_total_clamped [OF h, of "- 3"] h e0
  show ?thesis by simp
qed

section \<open>Properties of the scenario store\<close>

subsection \<open>Dictionaries\<close>

lemma dict_contains_iff: "dict_contains d k \<longleftrightarrow> dict_get d k \<noteq> None"
  by (simp add: dict_contains_def dict_get_def map_of_eq_None_iff)

lemma dict_get_dict_set:
  "dict_get (dict_set d k v) k' = (if k' = k then Some v else dict_get d k')"
  by (induction d) (auto simp: dict_get_def)

lemma keys_dict_set: "set (map fst (dict_set d k v)) = insert k (set (map fst d))"
proof (induction d)
  case Nil
  show ?case by simp
next
  case (Cons p d)
  obtain k' v' where p: "p = (k', v')" by (cases p)
  show ?case
  proof (cases "k' = k")
    case True
    then show ?thesis by (simp add: p)
  next
    case False
    then show ?thesis using Cons.IH by (simp add: p insert_commute)
  qed
qed

lemma dict_wf_dict_set: "dict_wf d \<Longrightarrow> dict_wf (dict_set d k v)"
proof (induction d)
  case Nil
  then show ?case by (simp add: dict_wf_def)
next
  case (Cons p d)
  obtain k' v' where p: "p = (k', v')" by (cases p)
  from Cons.prems have wf: "dict_wf d" and fresh: "k' \<notin> set (map fst d)"
    by (simp_all add: dict_wf_def p)
  show ?case
  proof (cases "k' = k")
    case True
    with Cons.prems show ?thesis by (simp add: dict_wf_def p)
  next
    case False
    have "dict_wf (dict_set d k v)" using Cons.IH wf by simp
    moreover have "k' \<notin> set (map fst (dict_set d k v))"
      using fresh False by (simp only: keys_dict_set) simp
    ultimately show ?thesis using False by (simp add: dict_wf_def p)
  qed
qed

lemma dict_set_absent: "\<not> dict_contains d k \<Longrightarrow> dict_set d k v = d @ [(k, v)]"
  by (induction d) (auto simp: dict_contains_def)

lemma dict_contains_Cons:
  "dict_contains ((k', v') # d) k \<longleftrightarrow> k' = k \<or> dict_contains d k"
  by (auto simp: dict_contains_def)

lemma length_dict_set:
  "length (dict_set d k v) = (if dict_contains d k then length d else Suc (length d))"
proof (induction d)
  case Nil
  show ?case by (simp add: dict_contains_def)
next
  case (Cons p d)
  obtain k' v' where p: "p = (k', v')" by (cases p)
  show ?case using Cons.IH by (simp add: p dict_contains_Cons)
qed

lemma set_dict_values_dict_set:
  "set (dict_values (dict_set d k v)) \<subseteq> insert v (set (dict_values d))"
proof (induction d)
  case Nil
  show ?case by (simp add: dict_values_def)
next
  case (Cons p d)
  obtain k' v' where p: "p = (k', v')" by (cases p)
  from Cons.IH have "set (map snd (dict_set d k v)) \<subseteq> insert v (set (map snd d))"
    by (simp add: dict_values_def)
  then show ?case by (auto simp: p dict_values_def)
qed

lemma dict_del_absent: "\<not> dict_contains d k \<Longrightarrow> dict_del d k = d"
  by (induction d) (auto simp: dict_contains_def dict_del_def)

lemma dict_get_dict_del:
  "dict_get (dict_del d k) k' = (if k' = k then None else dict_get d k')"
  by (induction d) (auto simp: dict_get_def dict_del_def)

lemma dict_wf_dict_del: "dict_wf d \<Longrightarrow> dict_wf (dict_del d k)"
  by (simp add: dict_wf_def dict_del_def distinct_map_filter)

lemma length_dict_del:
  "dict_wf d \<Longrightarrow> dict_contains d k \<Longrightarrow> Suc (length (dict_del d k)) = length d"
proof (induction d)
  case Nil
  then show ?case by (simp add: dict_contains_def)
next
  case (Cons p d)
  show ?case
  proof (cases "fst p = k")
    case True
    with Cons.prems(1) have "\<not> dict_contains d k"
      by (auto simp: dict_wf_def dict_contains_def)
    then have "dict_del d k = d" by (rule dict_del_absent)
    then have "filter (\<lambda>p. fst p \<noteq> k) d = d" by (simp add: dict_del_def)
    with True show ?thesis by (simp add: dict_del_def)
  next
    case False
    with Cons.prems have "dict_wf d" and "dict_contains d k"
      by (auto simp: dict_wf_def dict_contains_def)
    then have "Suc (length (dict_del d k)) = length d" by (rule Cons.IH)
    with False show ?thesis by (simp add: dict_del_def)
  qed
qed

lemma dict_del_twice: "dict_del (dict_del d k) k = dict_del d k"
  by (simp add: dict_del_def)

lemma not_contains_dict_del: "\<not> dict_contains (dict_del d k) k"
  by (auto simp: dict_contains_def dict_del_def)

subsection \<open>Deleting a tree\<close>

text \<open>
  Claim C9. \<^verbatim>\<open>delete_planted_tree\<close> never raises. On an identifier of the store it
  removes that record and no other: the store is one shorter, the identifier is gone and
  every other identifier keeps its record. On an identifier that is not in the store it
  leaves the scenario as it is. Deleting again changes nothing.
\<close>

theorem delete_planted_tree_idempotent:
  assumes wf: "dict_wf (planted_trees sc)"
  shows "fst (delete_planted_tree sc k) = Inr ()
       \<and> (dict_contains (planted_trees sc) k \<longrightarrow>
            snd (delete_planted_tree sc k)
              = sc\<lparr> planted_trees := filter (\<lambda>p. fst p \<noteq> k) (planted_trees sc) \<rparr>
          \<and> Suc (length (planted_trees (snd (delete_planted_tree sc k))))
              = length (planted_trees sc)
          \<and> (\<forall>k'. dict_get (planted_trees (snd (delete_planted_tree sc k))) k'
                 = (if k' = k then None else dict_get (planted_trees sc) k')))
       \<and> (\<not> dict_contains (planted_trees sc) k \<longrightarrow> snd (delete_planted_tree sc k) = sc)
       \<and> delete_planted_tree (snd (delete_planted_tree sc k)) k
            = (Inr (), snd (delete_planted_tree sc k))"
proof (cases "dict_contains (planted_trees sc) k")
  case True
  have s: "snd (delete_planted_tree sc k) = sc\<lparr> planted_trees := dict_del (planted_trees sc) k \<rparr>"
    using True by (simp add: delete_planted_tree_def)
  have 1: "fst (delete_planted_tree sc k) = Inr ()"
    by (simp add: delete_planted_tree_def)
  have 2: "Suc (length (planted_trees (snd (delete_planted_tree sc k)))) = length (planted_trees sc)"
    using length_dict_del [OF wf True] by (simp add: s)
  have 3: "\<forall>k'. dict_get (planted_trees (snd (delete_planted_tree sc k))) k'
                 = (if k' = k then None else dict_get (planted_trees sc) k')"
    by (simp add: s dict_get_dict_del)
  have 4: "delete_planted_tree (snd (delete_planted_tree sc k)) k
            = (Inr (), snd (delete_planted_tree sc k))"
    by (simp add: s delete_planted_tree_def not_contains_dict_del)
  show ?thesis using True 1 2 3 4 s by (simp add: dict_del_def)
next
  case False
  then show ?thesis by (simp add: delete_planted_tree_def)
qed

subsection \<open>Projection\<close>

lemma project_tree_catalog:
  "SPECIES_BY_ID sid = Some s \<Longrightarrow>
   project_tree sid d h = annual_benefits sid (d + dbh_growth_in_per_year s * real_of_int h)"
  by (simp add: project_tree_def species_lookup_def)

lemma project_tree_total:
  assumes "SPECIES_BY_ID sid \<noteq> None"
  shows "\<exists>p. project_tree sid d h = Inr p"
proof -
  from assms obtain s where s: "SPECIES_BY_ID sid = Some s" by auto
  show ?thesis by (simp add: project_tree_catalog [OF s] annual_benefits_catalog [OF s])
qed

lemma projection_loop_sums:
  assumes "list_all (\<lambda>t. SPECIES_BY_ID (t_species_id t) \<noteq> None) ts"
  shows "\<exists>projs.
      list_all2 (\<lambda>t p. project_tree (t_species_id t) (t_dbh_in t) h = Inr p) ts projs
    \<and> projection_loop h ts tot pt =
        Inr (\<lparr> carbon_kg_per_year =
                 foldl (+) (carbon_kg_per_year tot) (map b_carbon_kg_per_year projs),
               stormwater_l_per_year =
                 foldl (+) (stormwater_l_per_year tot) (map b_stormwater_l_per_year projs),
               pollution_g_per_year =
                 foldl (+) (pollution_g_per_year tot) (map b_pollution_g_per_year projs),
               canopy_area_m2_total =
                 foldl (+) (canopy_area_m2_total tot) (map b_canopy_area_m2 projs) \<rparr>,
             pt @ map2 (\<lambda>t p. \<lparr> p_id = t_id t, projection = p \<rparr>) ts projs)"
  using assms
proof (induction ts arbitrary: tot pt)
  case Nil
  show ?case by simp
next
  case (Cons t ts)
  from Cons.prems have v: "SPECIES_BY_ID (t_species_id t) \<noteq> None"
    and vs: "list_all (\<lambda>t. SPECIES_BY_ID (t_species_id t) \<noteq> None) ts" by simp_all
  from project_tree_total [OF v] obtain p
    where p: "project_tree (t_species_id t) (t_dbh_in t) h = Inr p" by blast
  define tot' where "tot' = tot\<lparr>
      carbon_kg_per_year := carbon_kg_per_year tot + b_carbon_kg_per_year p,
      stormwater_l_per_year := stormwater_l_per_year tot + b_stormwater_l_per_year p,
      pollution_g_per_year := pollution_g_per_year tot + b_pollution_g_per_year p,
      canopy_area_m2_total := canopy_area_m2_total tot + b_canopy_area_m2 p \<rparr>"
  define pt' where "pt' = pt @ [\<lparr> p_id = t_id t, projection = p \<rparr>]"
  have step: "projection_loop h (t # ts) tot pt = projection_loop h ts tot' pt'"
    by (simp add: p tot'_def pt'_def)
  from Cons.IH [OF vs, of tot' pt'] obtain projs where
    all2: "list_all2 (\<lambda>t p. project_tree (t_species_id t) (t_dbh_in t) h = Inr p) ts projs"
    and loop: "projection_loop h ts tot' pt' =
        Inr (\<lparr> carbon_kg_per_year =
                 foldl (+) (carbon_kg_per_year tot') (map b_carbon_kg_per_year projs),
               stormwater_l_per_year =
                 foldl (+) (stormwater_l_per_year tot') (map b_stormwater_l_per_year projs),
               pollution_g_per_year =
                 foldl (+) (pollution_g_per_year tot') (map b_pollution_g_per_year projs),
               canopy_area_m2_total =
                 foldl (+) (canopy_area_m2_total tot') (map b_canopy_area_m2 projs) \<rparr>,
             pt' @ map2 (\<lambda>t p. \<lparr> p_id = t_id t, projection = p \<rparr>) ts projs)"
    by blast
  have "list_all2 (\<lambda>t p. project_tree (t_species_id t) (t_dbh_in t) h = Inr p)
          (t # ts) (p # projs)"
    using p all2 by simp
  moreover have "projection_loop h (t # ts) tot pt =
        Inr (\<lparr> carbon_kg_per_year =
                 foldl (+) (carbon_kg_per_year tot) (map b_carbon_kg_per_year (p # projs)),
               stormwater_l_per_year =
                 foldl (+) (stormwater_l_per_year tot) (map b_stormwater_l_per_year (p # projs)),
               pollution_g_per_year =
                 foldl (+) (pollution_g_per_year tot) (map b_pollution_g_per_year (p # projs)),
               canopy_area_m2_total =
                 foldl (+) (canopy_area_m2_total tot) (map b_canopy_area_m2 (p # projs)) \<rparr>,
             pt @ map2 (\<lambda>t p. \<lparr> p_id = t_id t, projection = p \<rparr>) (t # ts) (p # projs))"
    unfolding step loop by (simp add: tot'_def pt'_def)
  ultimately show ?case by blast
qed

text \<open>
  Claim C2. \<^verbatim>\<open>scenario_projection\<close> raises the 400 error for a horizon outside
  5, 10, 15, 20. For an allowed horizon and a store whose trees name species of the
  catalog it returns, tree by tree in the store's order, the result of
  \<^verbatim>\<open>project_tree\<close> on the tree's species, diameter and the horizon, and totals that
  are the per-tree carbon, stormwater, pollution and canopy area added up from 0 in that
  order.
\<close>

theorem scenario_projection_totals:
  shows "(horizon \<notin> {5, 10, 15, 20} \<longrightarrow>
           fst (scenario_projection sc horizon)
             = Inl (HTTPException 400 (Text ''horizon must be one of 5,10,15,20'')))
       \<and> (horizon \<in> {5, 10, 15, 20} \<and> species_valid sc \<longrightarrow>
           (\<exists>projs.
              list_all2 (\<lambda>t p. project_tree (t_species_id t) (t_dbh_in t) horizon = Inr p)
                (dict_values (planted_trees sc)) projs
            \<and> fst (scenario_projection sc horizon) =
                Inr \<lparr> r_horizon_years = horizon,
                      r_total = \<lparr>
                        carbon_kg_per_year = foldl (+) 0 (map b_carbon_kg_per_year projs),
                        stormwater_l_per_year = foldl (+) 0 (map b_stormwater_l_per_year projs),
                        pollution_g_per_year = foldl (+) 0 (map b_pollution_g_per_year projs),
                        canopy_area_m2_total = foldl (+) 0 (map b_canopy_area_m2 projs) \<rparr>,
                      r_per_tree = map2 (\<lambda>t p. \<lparr> p_id = t_id t, projection = p \<rparr>)
                        (dict_values (planted_trees sc)) projs \<rparr>))"
proof (intro conjI impI)
  assume "horizon \<notin> {5, 10, 15, 20}"
  then show "fst (scenario_projection sc horizon)
             = Inl (HTTPException 400 (Text ''horizon must be one of 5,10,15,20''))"
    by (simp add: scenario_projection_def)
next
  assume a: "horizon \<in> {5, 10, 15, 20} \<and> species_valid sc"
  then have h: "\<not> horizon \<notin> {5, 10, 15, 20}" by blast
  from a have v: "list_all (\<lambda>t. SPECIES_BY_ID (t_species_id t) \<noteq> None)
      (dict_values (planted_trees sc))" by (simp add: species_valid_def)
  define zero where "zero = \<lparr> carbon_kg_per_year = 0::real, stormwater_l_per_year = 0::real,
                       pollution_g_per_year = 0::real, canopy_area_m2_total = 0::real \<rparr>"
  from projection_loop_sums [OF v, of horizon zero "[]"] obtain projs where
    all2: "list_all2 (\<lambda>t p. project_tree (t_species_id t) (t_dbh_in t) horizon = Inr p)
                (dict_values (planted_trees sc)) projs"
    and loop: "projection_loop horizon (dict_values (planted_trees sc)) zero [] =
        Inr (\<lparr> carbon_kg_per_year = foldl (+) 0 (map b_carbon_kg_per_year projs),
               stormwater_l_per_year = foldl (+) 0 (map b_stormwater_l_per_year projs),
               pollution_g_per_year = foldl (+) 0 (map b_pollution_g_per_year projs),
               canopy_area_m2_total = foldl (+) 0 (map b_canopy_area_m2 projs) \<rparr>,
             map2 (\<lambda>t p. \<lparr> p_id = t_id t, projection = p \<rparr>)
               (dict_values (planted_trees sc)) projs)"
    by (auto simp: zero_def)
  have "fst (scenario_projection sc horizon) =
                Inr \<lparr> r_horizon_years = horizon,
                      r_total = \<lparr>
                        carbon_kg_per_year = foldl (+) 0 (map b_carbon_kg_per_year projs),
                        stormwater_l_per_year = foldl (+) 0 (map b_stormwater_l_per_year projs),
                        pollution_g_per_year = foldl (+) 0 (map b_pollution_g_per_year projs),
                        canopy_area_m2_total = foldl (+) 0 (map b_canopy_area_m2 projs) \<rparr>,
                      r_per_tree = map2 (\<lambda>t p. \<lparr> p_id = t_id t, projection = p \<rparr>)
                        (dict_values (planted_trees sc)) projs \<rparr>"
    unfolding scenario_projection_def using h loop
    by (simp add: zero_def Let_def del: insert_iff)
  with all2 show "\<exists>projs.
              list_all2 (\<lambda>t p. project_tree (t_species_id t) (t_dbh_in t) horizon = Inr p)
                (dict_values (planted_trees sc)) projs
            \<and> fst (scenario_projection sc horizon) =
                Inr \<lparr> r_horizon_years = horizon,
                      r_total = \<lparr>
                        carbon_kg_per_year = foldl (+) 0 (map b_carbon_kg_per_year projs),
                        stormwater_l_per_year = foldl (+) 0 (map b_stormwater_l_per_year projs),
                        pollution_g_per_year = foldl (+) 0 (map b_pollution_g_per_year projs),
                        canopy_area_m2_total = foldl (+) 0 (map b_canopy_area_m2 projs) \<rparr>,
                      r_per_tree = map2 (\<lambda>t p. \<lparr> p_id = t_id t, projection = p \<rparr>)
                        (dict_values (planted_trees sc)) projs \<rparr>"
    by blast
qed

text \<open>
  Claim C8. \<^verbatim>\<open>scenario_projection\<close> leaves the scenario as it found it, for every
  horizon and whether it returns or raises; \<^verbatim>\<open>get_scenario\<close> answers the same
  before and after.
\<close>

theorem scenario_projection_pure:
  "snd (scenario_projection sc horizon) = sc
   \<and> fst (get_scenario (snd (scenario_projection sc horizon))) = fst (get_scenario sc)"
  by (simp add: scenario_projection_def Let_def split: sum.splits prod.splits)

subsection \<open>Adding a tree\<close>

lemma add_planted_tree_bad_payload:
  "add_fields payload = Inl e \<Longrightarrow>
   add_planted_tree now sc payload = (Inl (HTTPException 400 (BadPayload e)), sc)"
  by (simp add: add_planted_tree_def)

lemma add_planted_tree_unknown_species:
  "add_fields payload = Inr (lon, lat, sid, dbh, yr) \<Longrightarrow> SPECIES_BY_ID sid = None \<Longrightarrow>
   add_planted_tree now sc payload = (Inl (HTTPException 400 (Text ''Unknown species_id'')), sc)"
  by (simp add: add_planted_tree_def)

lemma add_planted_tree_success:
  assumes "add_fields payload = Inr (lon, lat, sid, dbh, yr)"
    and "annual_benefits sid dbh = Inr b"
    and "SPECIES_BY_ID sid \<noteq> None"
  shows "add_planted_tree now sc payload =
      (Inr \<lparr> t_id = new_tree_id now sc, t_lon = lon, t_lat = lat, t_species_id = sid,
              t_dbh_in = dbh, t_planting_year = yr, t_benefits = b \<rparr>,
       sc\<lparr> planted_trees := dict_set (planted_trees sc) (new_tree_id now sc)
            \<lparr> t_id = new_tree_id now sc, t_lon = lon, t_lat = lat, t_species_id = sid,
              t_dbh_in = dbh, t_planting_year = yr, t_benefits = b \<rparr> \<rparr>)"
  using assms by (simp add: add_planted_tree_def Let_def)

lemma annual_benefits_total:
  "SPECIES_BY_ID sid \<noteq> None \<Longrightarrow> \<exists>b. annual_benefits sid d = Inr b"
  by (auto simp: annual_benefits_catalog)

lemma add_fields_cases:
  "add_fields payload = Inr (lon, lat, sid, dbh, yr) \<longleftrightarrow>
     (\<exists>v. payload ''lon'' = Some v \<and> py_float v = Inr lon)
   \<and> (\<exists>v. payload ''lat'' = Some v \<and> py_float v = Inr lat)
   \<and> sid = (case payload ''species_id'' of None \<Rightarrow> ''red_maple'' | Some v \<Rightarrow> py_str v)
   \<and> (case payload ''dbh_in'' of None \<Rightarrow> dbh = 2 | Some v \<Rightarrow> py_float v = Inr dbh)
   \<and> (case payload ''planting_year'' of None \<Rightarrow> yr = 2026 | Some v \<Rightarrow> py_int v = Inr yr)"
  by (auto simp: add_fields_def payload_item_def payload_get_def json_float_def json_int_def
      json_text_def Let_def split: option.splits sum.splits)

lemma add_fields_lon_lat_fail:
  assumes "payload ''lon'' = None \<or> payload ''lat'' = None
     \<or> (\<exists>v e. payload ''lon'' = Some v \<and> py_float v = Inl e)
     \<or> (\<exists>v e. payload ''lat'' = Some v \<and> py_float v = Inl e)"
  shows "\<exists>e. add_fields payload = Inl e"
proof (cases "add_fields payload")
  case (Inl e)
  then show ?thesis by blast
next
  case (Inr r)
  obtain lon lat sid dbh yr where "r = (lon, lat, sid, dbh, yr)" by (cases r)
  with Inr have "add_fields payload = Inr (lon, lat, sid, dbh, yr)" by simp
  then have "(\<exists>v. payload ''lon'' = Some v \<and> py_float v = Inr lon)
   \<and> (\<exists>v. payload ''lat'' = Some v \<and> py_float v = Inr lat)"
    by (simp add: add_fields_cases)
  with assms show ?thesis by auto
qed

text \<open>
  Claim C10. \<^verbatim>\<open>add_planted_tree\<close> raises the 400 error \<^verbatim>\<open>Bad payload\<close> and
  leaves the scenario as it is when \<^verbatim>\<open>lon\<close> or \<^verbatim>\<open>lat\<close> is missing or
  \<^verbatim>\<open>float\<close> raises on it. When both convert, a missing \<^verbatim>\<open>species_id\<close>,
  \<^verbatim>\<open>dbh_in\<close> or \<^verbatim>\<open>planting_year\<close> makes no failure (the fields that are
  present being convertible and the species known): the tree is stored with
  \<^verbatim>\<open>red_maple\<close>, 2.0 and 2026 in the place of what is missing.
\<close>

theorem add_planted_tree_required_and_defaults:
  "(payload ''lon'' = None \<or> payload ''lat'' = None
      \<or> (\<exists>v e. payload ''lon'' = Some v \<and> py_float v = Inl e)
      \<or> (\<exists>v e. payload ''lat'' = Some v \<and> py_float v = Inl e)
    \<longrightarrow> (\<exists>e. add_planted_tree now sc payload = (Inl (HTTPException 400 (BadPayload e)), sc)))
 \<and> ((\<exists>v x. payload ''lon'' = Some v \<and> py_float v = Inr x)
      \<and> (\<exists>v y. payload ''lat'' = Some v \<and> py_float v = Inr y)
      \<and> (payload ''species_id'' = None
           \<or> (\<exists>v. payload ''species_id'' = Some v \<and> SPECIES_BY_ID (py_str v) \<noteq> None))
      \<and> (payload ''dbh_in'' = None
           \<or> (\<exists>v d. payload ''dbh_in'' = Some v \<and> py_float v = Inr d))
      \<and> (payload ''planting_year'' = None
           \<or> (\<exists>v y. payload ''planting_year'' = Some v \<and> py_int v = Inr y))
    \<longrightarrow> (\<exists>t. add_planted_tree now sc payload =
               (Inr t, sc\<lparr> planted_trees :=
                           dict_set (planted_trees sc) (new_tree_id now sc) t \<rparr>)
           \<and> (payload ''species_id'' = None \<longrightarrow> t_species_id t = ''red_maple'')
           \<and> (payload ''dbh_in'' = None \<longrightarrow> t_dbh_in t = 2.0)
           \<and> (payload ''planting_year'' = None \<longrightarrow> t_planting_year t = 2026)))"
proof (intro conjI impI)
  assume "payload ''lon'' = None \<or> payload ''lat'' = None
      \<or> (\<exists>v e. payload ''lon'' = Some v \<and> py_float v = Inl e)
      \<or> (\<exists>v e. payload ''lat'' = Some v \<and> py_float v = Inl e)"
  then obtain e where "add_fields payload = Inl e"
    using add_fields_lon_lat_fail by blast
  then show "\<exists>e. add_planted_tree now sc payload = (Inl (HTTPException 400 (BadPayload e)), sc)"
    by (auto simp: add_planted_tree_bad_payload)
next
  assume a: "(\<exists>v x. payload ''lon'' = Some v \<and> py_float v = Inr x)
      \<and> (\<exists>v y. payload ''lat'' = Some v \<and> py_float v = Inr y)
      \<and> (payload ''species_id'' = None
           \<or> (\<exists>v. payload ''species_id'' = Some v \<and> SPECIES_BY_ID (py_str v) \<noteq> None))
      \<and> (payload ''dbh_in'' = None
           \<or> (\<exists>v d. payload ''dbh_in'' = Some v \<and> py_float v = Inr d))
      \<and> (payload ''planting_year'' = None
           \<or> (\<exists>v y. payload ''planting_year'' = Some v \<and> py_int v = Inr y))"
  define sid where
    "sid = (case payload ''species_id'' of None \<Rightarrow> ''red_maple'' | Some v \<Rightarrow> py_str v)"
  from a obtain lon lat where
    lon: "\<exists>v. payload ''lon'' = Some v \<and> py_float v = Inr lon"
    and lat: "\<exists>v. payload ''lat'' = Some v \<and> py_float v = Inr lat" by blast
  from a obtain dbh where
    dbh: "case payload ''dbh_in'' of None \<Rightarrow> dbh = 2 | Some v \<Rightarrow> py_float v = Inr dbh"
    by (cases "payload ''dbh_in''") auto
  from a obtain yr where
    yr: "case payload ''planting_year'' of None \<Rightarrow> yr = 2026 | Some v \<Rightarrow> py_int v = Inr yr"
    by (cases "payload ''planting_year''") auto
  have fields: "add_fields payload = Inr (lon, lat, sid, dbh, yr)"
    using lon lat dbh yr by (simp add: add_fields_cases sid_def)
  have valid: "SPECIES_BY_ID sid \<noteq> None"
    using a by (cases "payload ''species_id''") (auto simp: sid_def SPECIES_BY_ID_red_maple)
  from annual_benefits_total [OF valid] obtain b where b: "annual_benefits sid dbh = Inr b"
    by blast
  define t where "t = \<lparr> t_id = new_tree_id now sc, t_lon = lon, t_lat = lat,
      t_species_id = sid, t_dbh_in = dbh, t_planting_year = yr, t_benefits = b \<rparr>"
  have r1: "add_planted_tree now sc payload =
      (Inr t, sc\<lparr> planted_trees := dict_set (planted_trees sc) (new_tree_id now sc) t \<rparr>)"
    unfolding t_def by (rule add_planted_tree_success [OF fields b valid])
  have r2: "payload ''species_id'' = None \<longrightarrow> t_species_id t = ''red_maple''"
    by (simp add: t_def sid_def)
  have r3: "payload ''dbh_in'' = None \<longrightarrow> t_dbh_in t = 2.0"
    using dbh by (auto simp: t_def)
  have r4: "payload ''planting_year'' = None \<longrightarrow> t_planting_year t = 2026"
    using yr by (auto simp: t_def)
  show "\<exists>t. add_planted_tree now sc payload =
               (Inr t, sc\<lparr> planted_trees :=
                           dict_set (planted_trees sc) (new_tree_id now sc) t \<rparr>)
           \<and> (payload ''species_id'' = None \<longrightarrow> t_species_id t = ''red_maple'')
           \<and> (payload ''dbh_in'' = None \<longrightarrow> t_dbh_in t = 2.0)
           \<and> (payload ''planting_year'' = None \<longrightarrow> t_planting_year t = 2026)"
    by (intro exI [of _ t] conjI) (rule r1 r2 r3 r4)+
qed

subsection \<open>Identifiers\<close>

text \<open>
  Two identifiers are the same exactly when the millisecond and the size of the store are
  the same.
\<close>

lemma lt10_cases:
  "(d::nat) < 10 \<Longrightarrow> d = 0 \<or> d = 1 \<or> d = 2 \<or> d = 3 \<or> d = 4 \<or> d = 5 \<or> d = 6 \<or> d = 7 \<or> d = 8 \<or> d = 9"
  by arith

lemma digit_value_digit_char: "d < 10 \<Longrightarrow> digit_value (digit_char d) = d"
  using lt10_cases [of d] by (auto simp: digit_value_def digit_char_def)

lemma digit_char_is_digit: "d < 10 \<Longrightarrow> digit_char d \<in> set ''0123456789''"
  using lt10_cases [of d] by (auto simp: digit_char_def)

lemma digits_value_str_nat: "digits_value (str_nat n) = n"
proof (induction n rule: str_nat.induct)
  case (1 n)
  show ?case
  proof (cases "n < 10")
    case True
    then show ?thesis
      by (subst str_nat.simps) (simp add: digits_value_def digit_value_digit_char)
  next
    case False
    with "1.IH" have ih: "digits_value (str_nat (n div 10)) = n div 10" by simp
    have "digits_value (str_nat n)
        = 10 * digits_value (str_nat (n div 10)) + digit_value (digit_char (n mod 10))"
      using False by (subst str_nat.simps) (simp add: digits_value_def)
    also have "\<dots> = 10 * (n div 10) + n mod 10"
      by (simp add: ih digit_value_digit_char)
    finally show ?thesis by simp
  qed
qed

lemma str_nat_inj: "str_nat m = str_nat n \<Longrightarrow> m = n"
  by (metis digits_value_str_nat)

lemma str_nat_digits: "set (str_nat n) \<subseteq> set ''0123456789''"
proof (induction n rule: str_nat.induct)
  case (1 n)
  show ?case
  proof (cases "n < 10")
    case True
    then show ?thesis
      using digit_char_is_digit [of n] by (subst str_nat.simps) simp
  next
    case False
    with "1.IH" have ih: "set (str_nat (n div 10)) \<subseteq> set ''0123456789''" by simp
    have "n mod 10 < 10" by simp
    then have "digit_char (n mod 10) \<in> set ''0123456789''" by (rule digit_char_is_digit)
    with ih False show ?thesis by (subst str_nat.simps) simp
  qed
qed

lemma str_nat_not_Nil: "str_nat n \<noteq> []"
  by (subst str_nat.simps) simp

lemma str_nat_no_minus: "CHR ''-'' \<notin> set (str_nat n)"
  using str_nat_digits [of n] by auto

lemma str_nat_no_underscore: "CHR ''_'' \<notin> set (str_nat n)"
  using str_nat_digits [of n] by auto

lemma str_int_no_underscore: "CHR ''_'' \<notin> set (str_int i)"
  by (simp add: str_int_def str_nat_no_underscore)

lemma str_int_inj:
  assumes "str_int i = str_int j"
  shows "i = j"
proof -
  have hd_neg: "hd (str_int k) = CHR ''-''" if "k < 0" for k
    using that by (simp add: str_int_def)
  have hd_pos: "hd (str_int k) \<noteq> CHR ''-''" if "\<not> k < 0" for k
  proof -
    have "hd (str_nat (nat k)) \<in> set (str_nat (nat k))"
      using str_nat_not_Nil by simp
    with str_nat_no_minus [of "nat k"] have "hd (str_nat (nat k)) \<noteq> CHR ''-''" by metis
    with that show ?thesis by (simp add: str_int_def)
  qed
  show ?thesis
  proof (cases "i < 0")
    case True
    with assms hd_neg [of i] hd_pos [of j] have j: "j < 0" by metis
    with True assms have "str_nat (nat (- i)) = str_nat (nat (- j))" by (simp add: str_int_def)
    then have "nat (- i) = nat (- j)" by (rule str_nat_inj)
    with True j show ?thesis by simp
  next
    case False
    with assms hd_neg [of j] hd_pos [of i] have j: "\<not> j < 0" by metis
    with False assms have "str_nat (nat i) = str_nat (nat j)" by (simp add: str_int_def)
    then have "nat i = nat j" by (rule str_nat_inj)
    with False j show ?thesis by simp
  qed
qed

lemma split_at_separator:
  assumes "c \<notin> set a" and "c \<notin> set a'" and "a @ c # b = a' @ c # b'"
  shows "a = a' \<and> b = b'"
  using assms
proof (induction a arbitrary: a')
  case Nil
  then show ?case by (cases a') auto
next
  case (Cons x a)
  then show ?case by (cases a') auto
qed

lemma new_tree_id_eq_iff:
  "new_tree_id now sc = new_tree_id now' sc' \<longleftrightarrow>
     trunc_real (now * 1000) = trunc_real (now' * 1000)
   \<and> length (planted_trees sc) = length (planted_trees sc')"
proof
  assume eq: "new_tree_id now sc = new_tree_id now' sc'"
  then have "str_int (trunc_real (now * 1000)) @ CHR ''_''
                # str_int (int (length (planted_trees sc)) + 1)
           = str_int (trunc_real (now' * 1000)) @ CHR ''_''
                # str_int (int (length (planted_trees sc')) + 1)"
    by (simp add: new_tree_id_def)
  then have "str_int (trunc_real (now * 1000)) = str_int (trunc_real (now' * 1000))
     \<and> str_int (int (length (planted_trees sc)) + 1)
       = str_int (int (length (planted_trees sc')) + 1)"
    by (rule split_at_separator [OF str_int_no_underscore str_int_no_underscore])
  then show "trunc_real (now * 1000) = trunc_real (now' * 1000)
   \<and> length (planted_trees sc) = length (planted_trees sc')"
    by (auto dest: str_int_inj)
next
  assume "trunc_real (now * 1000) = trunc_real (now' * 1000)
   \<and> length (planted_trees sc) = length (planted_trees sc')"
  then show "new_tree_id now sc = new_tree_id now' sc'" by (simp add: new_tree_id_def)
qed

lemma add_planted_tree_fresh:
  assumes fields: "add_fields payload = Inr (lon, lat, sid, dbh, yr)"
    and valid: "SPECIES_BY_ID sid \<noteq> None"
    and fresh: "\<not> dict_contains (planted_trees sc) (new_tree_id now sc)"
  shows "\<exists>t. add_planted_tree now sc payload =
               (Inr t, sc\<lparr> planted_trees := planted_trees sc @ [(new_tree_id now sc, t)] \<rparr>)
           \<and> t_id t = new_tree_id now sc \<and> t_species_id t = sid \<and> t_dbh_in t = dbh
           \<and> annual_benefits sid dbh = Inr (t_benefits t)
           \<and> length (planted_trees (snd (add_planted_tree now sc payload)))
               = Suc (length (planted_trees sc))
           \<and> r_planted_trees (fst (get_scenario (snd (add_planted_tree now sc payload))))
               = r_planted_trees (fst (get_scenario sc)) @ [t]"
proof -
  from annual_benefits_total [OF valid] obtain b where b: "annual_benefits sid dbh = Inr b"
    by blast
  define t where "t = \<lparr> t_id = new_tree_id now sc, t_lon = lon, t_lat = lat,
      t_species_id = sid, t_dbh_in = dbh, t_planting_year = yr, t_benefits = b \<rparr>"
  have run: "add_planted_tree now sc payload =
      (Inr t, sc\<lparr> planted_trees := planted_trees sc @ [(new_tree_id now sc, t)] \<rparr>)"
    unfolding t_def add_planted_tree_success [OF fields b valid]
    by (simp add: dict_set_absent [OF fresh])
  show ?thesis
    by (rule exI [of _ t])
       (simp add: run b t_def get_scenario_def dict_values_def)
qed

subsection \<open>The example requests evaluated\<close>

lemma add_fields_payload_a:
  "add_fields payload_a = Inr (-73.99, 40.67, ''red_maple'', 2, 2026)"
  by (simp add: add_fields_def payload_a_def payload_item_def payload_get_def
     json_float_def json_int_def json_text_def)

lemma add_fields_payload_b:
  "add_fields payload_b = Inr (-73.98, 40.68, ''london_plane'', 3, 2027)"
  by (simp add: add_fields_def payload_b_def payload_item_def payload_get_def
     json_float_def json_int_def json_text_def)

lemma add_fields_payload_c:
  "add_fields payload_c = Inr (-73.97, 40.66, ''ginkgo'', 1.5, 2026)"
  by (simp add: add_fields_def payload_c_def payload_item_def payload_get_def
     json_float_def json_int_def json_text_def)

lemma annual_benefits_red_maple_2:
  "annual_benefits ''red_maple'' 2 =
     Inr \<lparr> b_canopy_radius_m = 9/10, b_canopy_area_m2 = canopy_area_m2 (9/10),
           b_carbon_kg_per_year = 6,
           b_stormwater_l_per_year = 45 * canopy_area_m2 (9/10),
           b_pollution_g_per_year = 12 * canopy_area_m2 (9/10) \<rparr>"
  by (simp add: annual_benefits_catalog [OF SPECIES_BY_ID_red_maple] red_maple_def)

lemma annual_benefits_red_maple_10:
  "annual_benefits ''red_maple'' 10 =
     Inr \<lparr> b_canopy_radius_m = 9/2, b_canopy_area_m2 = canopy_area_m2 (9/2),
           b_carbon_kg_per_year = 30,
           b_stormwater_l_per_year = 45 * canopy_area_m2 (9/2),
           b_pollution_g_per_year = 12 * canopy_area_m2 (9/2) \<rparr>"
  by (simp add: annual_benefits_catalog [OF SPECIES_BY_ID_red_maple] red_maple_def)

lemma annual_benefits_london_plane_3:
  "annual_benefits ''london_plane'' 3 =
     Inr \<lparr> b_canopy_radius_m = 33/20, b_canopy_area_m2 = canopy_area_m2 (33/20),
           b_carbon_kg_per_year = 63/5,
           b_stormwater_l_per_year = 55 * canopy_area_m2 (33/20),
           b_pollution_g_per_year = 14 * canopy_area_m2 (33/20) \<rparr>"
  by (simp add: annual_benefits_catalog [OF SPECIES_BY_ID_london_plane] london_plane_def)

lemma annual_benefits_ginkgo_1_5:
  "annual_benefits ''ginkgo'' 1.5 =
     Inr \<lparr> b_canopy_radius_m = 21/40, b_canopy_area_m2 = canopy_area_m2 (21/40),
           b_carbon_kg_per_year = 33/10,
           b_stormwater_l_per_year = 35 * canopy_area_m2 (21/40),
           b_pollution_g_per_year = 9 * canopy_area_m2 (21/40) \<rparr>"
  by (simp add: annual_benefits_catalog [OF SPECIES_BY_ID_ginkgo] ginkgo_def)

lemma new_tree_id_first:
  "length (planted_trees sc) = 0 \<Longrightarrow>
   new_tree_id ex_now_a sc = ''planted_1700000000100_1''"
  by (simp add: new_tree_id_def ex_now_a_def ex_now_b_def ex_now_c_def trunc_real_def str_int_def
      str_nat.simps digit_char_def)

lemma new_tree_id_second:
  "length (planted_trees sc) = 1 \<Longrightarrow>
   new_tree_id ex_now_b sc = ''planted_1700000000250_2''"
  by (simp add: new_tree_id_def ex_now_a_def ex_now_b_def ex_now_c_def trunc_real_def str_int_def
      str_nat.simps digit_char_def)

lemma new_tree_id_third:
  "length (planted_trees sc) = 1 \<Longrightarrow>
   new_tree_id ex_now_c sc = ''planted_1700000000250_2''"
  by (simp add: new_tree_id_def ex_now_a_def ex_now_b_def ex_now_c_def trunc_real_def str_int_def
      str_nat.simps digit_char_def)

lemma add_example_a:
  "add_planted_tree ex_now_a ex_sc0 payload_a =
     (Inr ex_tree_a, ex_sc0\<lparr> planted_trees := [(''planted_1700000000100_1'', ex_tree_a)] \<rparr>)"
proof -
  have len: "length (planted_trees ex_sc0) = 0" by (simp add: ex_sc0_def SCENARIO_def)
  have v: "SPECIES_BY_ID ''red_maple'' \<noteq> None" by (simp add: SPECIES_BY_ID_red_maple)
  show ?thesis
    unfolding add_planted_tree_success [OF add_fields_payload_a annual_benefits_red_maple_2 v]
      new_tree_id_first [OF len] ex_tree_a_def
    by (simp add: ex_sc0_def SCENARIO_def)
qed

lemma ex_sc1_trees: "planted_trees ex_sc1 = [(''planted_1700000000100_1'', ex_tree_a)]"
  by (simp add: ex_sc1_def add_example_a)

lemma add_example_b:
  "add_planted_tree ex_now_b ex_sc1 payload_b =
     (Inr ex_tree_b, ex_sc1\<lparr> planted_trees := [(''planted_1700000000100_1'', ex_tree_a),
                                                (''planted_1700000000250_2'', ex_tree_b)] \<rparr>)"
proof -
  have len: "length (planted_trees ex_sc1) = 1" by (simp add: ex_sc1_trees)
  have v: "SPECIES_BY_ID ''london_plane'' \<noteq> None" by (simp add: SPECIES_BY_ID_london_plane)
  show ?thesis
    unfolding add_planted_tree_success [OF add_fields_payload_b annual_benefits_london_plane_3 v]
      new_tree_id_second [OF len] ex_tree_b_def
    by (simp add: ex_sc1_trees)
qed

lemma ex_sc2_trees:
  "planted_trees ex_sc2 = [(''planted_1700000000100_1'', ex_tree_a),
                           (''planted_1700000000250_2'', ex_tree_b)]"
  by (simp add: ex_sc2_def add_example_b)

lemma ex_sc3_trees: "planted_trees ex_sc3 = [(''planted_1700000000250_2'', ex_tree_b)]"
  by (simp add: ex_sc3_def delete_planted_tree_def ex_sc2_trees dict_contains_def dict_del_def)

lemma add_example_c:
  "add_planted_tree ex_now_c ex_sc3 payload_c =
     (Inr ex_tree_c, ex_sc3\<lparr> planted_trees := [(''planted_1700000000250_2'', ex_tree_c)] \<rparr>)"
proof -
  have len: "length (planted_trees ex_sc3) = 1" by (simp add: ex_sc3_trees)
  have v: "SPECIES_BY_ID ''ginkgo'' \<noteq> None" by (simp add: SPECIES_BY_ID_ginkgo)
  show ?thesis
    unfolding add_planted_tree_success [OF add_fields_payload_c annual_benefits_ginkgo_1_5 v]
      new_tree_id_third [OF len] ex_tree_c_def
    by (simp add: ex_sc3_trees)
qed

lemma ex_sc4_trees: "planted_trees ex_sc4 = [(''planted_1700000000250_2'', ex_tree_c)]"
  by (simp add: ex_sc4_def add_example_c)

text \<open>
  Claim C3, on the example. The store holds the trees of the first and second request;
  the first is deleted; the third request, in the millisecond of the second, finds one
  tree in the store and so builds the identifier of the second tree again. The store then
  holds the third tree under that identifier and the second tree is gone.
\<close>

theorem add_planted_tree_reuses_identifier:
  "fst (add_planted_tree ex_now_b ex_sc1 payload_b) = Inr ex_tree_b
   \<and> r_planted_trees (fst (get_scenario ex_sc2)) = [ex_tree_a, ex_tree_b]
   \<and> r_planted_trees (fst (get_scenario ex_sc3)) = [ex_tree_b]
   \<and> fst (add_planted_tree ex_now_c ex_sc3 payload_c) = Inr ex_tree_c
   \<and> t_id ex_tree_c = t_id ex_tree_b
   \<and> t_species_id ex_tree_c \<noteq> t_species_id ex_tree_b
   \<and> r_planted_trees (fst (get_scenario ex_sc4)) = [ex_tree_c]"
  by (simp add: add_example_b add_example_c get_scenario_def dict_values_def
      ex_sc2_trees ex_sc3_trees ex_sc4_trees)
     (simp add: ex_tree_b_def ex_tree_c_def)

text \<open>
  Claim C4, on the example. The third request names a species of the catalog and all its
  fields convert; \<^verbatim>\<open>add_planted_tree\<close> returns its tree, and the store holds one
  tree before the call and one tree after it.
\<close>

theorem add_planted_tree_size_unchanged:
  "SPECIES_BY_ID ''ginkgo'' = Some ginkgo
   \<and> add_fields payload_c = Inr (-73.97, 40.66, ''ginkgo'', 1.5, 2026)
   \<and> length (planted_trees ex_sc3) = 1
   \<and> fst (add_planted_tree ex_now_c ex_sc3 payload_c) = Inr ex_tree_c
   \<and> length (planted_trees (snd (add_planted_tree ex_now_c ex_sc3 payload_c))) = 1"
  by (simp add: SPECIES_BY_ID_ginkgo add_fields_payload_c ex_sc3_trees add_example_c)

subsection \<open>Updating a tree\<close>

lemma update_planted_tree_not_found:
  "dict_get (planted_trees sc) k = None \<Longrightarrow>
   update_planted_tree sc k payload = (Inl (HTTPException 404 (Text ''Tree not found'')), sc)"
  by (simp add: update_planted_tree_def)

lemma then_stmt_preserves:
  assumes f: "\<And>t r t'. f t = (r, t') \<Longrightarrow> P t \<Longrightarrow> P t'"
    and g: "\<And>t r t'. g t = (r, t') \<Longrightarrow> P t \<Longrightarrow> P t'"
    and run: "then_stmt f g t = (r, t')" and p: "P t"
  shows "P t'"
proof -
  obtain r1 t1 where ft: "f t = (r1, t1)" by (cases "f t")
  have p1: "P t1" by (rule f [OF ft p])
  show ?thesis
  proof (cases r1)
    case None
    with ft run have "g t1 = (r, t')" by (simp add: then_stmt_def)
    then show ?thesis using p1 by (rule g)
  next
    case (Some e)
    with ft run have "t' = t1" by (simp add: then_stmt_def)
    with p1 show ?thesis by simp
  qed
qed

lemma then_stmt_None:
  assumes "then_stmt f g t = (None, t')"
  shows "\<exists>t1. f t = (None, t1) \<and> g t1 = (None, t')"
proof -
  obtain r1 t1 where ft: "f t = (r1, t1)" by (cases "f t")
  show ?thesis
  proof (cases r1)
    case None
    with ft assms show ?thesis by (simp add: then_stmt_def)
  next
    case (Some e)
    with ft assms show ?thesis by (simp add: then_stmt_def)
  qed
qed

lemma update_body_preserves:
  assumes lon: "\<And>t x. P t \<Longrightarrow> P (t\<lparr> t_lon := x \<rparr>)"
    and lat: "\<And>t x. P t \<Longrightarrow> P (t\<lparr> t_lat := x \<rparr>)"
    and dbh: "\<And>t x. P t \<Longrightarrow> P (t\<lparr> t_dbh_in := x \<rparr>)"
    and yr: "\<And>t y. P t \<Longrightarrow> P (t\<lparr> t_planting_year := y \<rparr>)"
    and sid: "\<And>t s. P t \<Longrightarrow> SPECIES_BY_ID s \<noteq> None \<Longrightarrow> P (t\<lparr> t_species_id := s \<rparr>)"
    and ben: "\<And>t b. P t \<Longrightarrow> P (t\<lparr> t_benefits := b \<rparr>)"
    and run: "update_body payload t = (r, t')" and p: "P t"
  shows "P t'"
proof -
  have 1: "\<And>t r t'. assign_lon payload t = (r, t') \<Longrightarrow> P t \<Longrightarrow> P t'"
    by (auto simp: assign_lon_def lon split: option.splits sum.splits)
  have 2: "\<And>t r t'. assign_lat payload t = (r, t') \<Longrightarrow> P t \<Longrightarrow> P t'"
    by (auto simp: assign_lat_def lat split: option.splits sum.splits)
  have 3: "\<And>t r t'. assign_dbh_in payload t = (r, t') \<Longrightarrow> P t \<Longrightarrow> P t'"
    by (auto simp: assign_dbh_in_def dbh split: option.splits sum.splits)
  have 4: "\<And>t r t'. assign_planting_year payload t = (r, t') \<Longrightarrow> P t \<Longrightarrow> P t'"
    by (auto simp: assign_planting_year_def yr split: option.splits sum.splits)
  have 5: "\<And>t r t'. assign_species_id payload t = (r, t') \<Longrightarrow> P t \<Longrightarrow> P t'"
    by (auto simp: assign_species_id_def sid Let_def split: option.splits if_splits)
  have 6: "\<And>t r t'. assign_benefits t = (r, t') \<Longrightarrow> P t \<Longrightarrow> P t'"
    by (auto simp: assign_benefits_def ben split: sum.splits)
  have s5: "P t'"
    if "then_stmt (assign_species_id payload) assign_benefits t = (r, t')" "P t" for t r t'
    using 5 6 that by (rule then_stmt_preserves [where P = P])
  have s4: "P t'"
    if "then_stmt (assign_planting_year payload)
         (then_stmt (assign_species_id payload) assign_benefits) t = (r, t')" "P t" for t r t'
    using 4 s5 that by (rule then_stmt_preserves [where P = P])
  have s3: "P t'"
    if "then_stmt (assign_dbh_in payload) (then_stmt (assign_planting_year payload)
         (then_stmt (assign_species_id payload) assign_benefits)) t = (r, t')" "P t" for t r t'
    using 3 s4 that by (rule then_stmt_preserves [where P = P])
  have s2: "P t'"
    if "then_stmt (assign_lat payload) (then_stmt (assign_dbh_in payload)
         (then_stmt (assign_planting_year payload)
         (then_stmt (assign_species_id payload) assign_benefits))) t = (r, t')" "P t" for t r t'
    using 2 s3 that by (rule then_stmt_preserves [where P = P])
  show ?thesis
    using 1 s2 run [unfolded update_body_def] p by (rule then_stmt_preserves [where P = P])
qed

lemma update_body_keeps_id: "update_body payload t = (r, t') \<Longrightarrow> t_id t' = t_id t"
  by (rule update_body_preserves [where P = "\<lambda>u. t_id u = t_id t"]) simp_all

lemma update_body_keeps_species_valid:
  "update_body payload t = (r, t') \<Longrightarrow> SPECIES_BY_ID (t_species_id t) \<noteq> None \<Longrightarrow>
   SPECIES_BY_ID (t_species_id t') \<noteq> None"
  by (rule update_body_preserves [where P = "\<lambda>u. SPECIES_BY_ID (t_species_id u) \<noteq> None"])
     simp_all

lemma assign_benefits_None:
  "assign_benefits t = (None, t') \<Longrightarrow>
   annual_benefits (t_species_id t') (t_dbh_in t') = Inr (t_benefits t')"
  by (auto simp: assign_benefits_def split: sum.splits)

lemma update_body_success_snapshot:
  assumes "update_body payload t = (None, t')"
  shows "annual_benefits (t_species_id t') (t_dbh_in t') = Inr (t_benefits t')"
proof -
  from assms obtain t1 where "then_stmt (assign_lat payload)
    (then_stmt (assign_dbh_in payload)
    (then_stmt (assign_planting_year payload)
    (then_stmt (assign_species_id payload)
     assign_benefits))) t1 = (None, t')"
    unfolding update_body_def by (blast dest: then_stmt_None)
  then obtain t2 where "then_stmt (assign_dbh_in payload)
    (then_stmt (assign_planting_year payload)
    (then_stmt (assign_species_id payload)
     assign_benefits)) t2 = (None, t')" by (blast dest: then_stmt_None)
  then obtain t3 where "then_stmt (assign_planting_year payload)
    (then_stmt (assign_species_id payload)
     assign_benefits) t3 = (None, t')" by (blast dest: then_stmt_None)
  then obtain t4 where "then_stmt (assign_species_id payload) assign_benefits t4 = (None, t')"
    by (blast dest: then_stmt_None)
  then obtain t5 where "assign_benefits t5 = (None, t')" by (blast dest: then_stmt_None)
  then show ?thesis by (rule assign_benefits_None)
qed

lemma update_planted_tree_success:
  assumes "dict_get (planted_trees sc) k = Some t" and "update_body payload t = (None, t')"
  shows "update_planted_tree sc k payload =
           (Inr t', sc\<lparr> planted_trees := dict_set (planted_trees sc) k t' \<rparr>)
       \<and> annual_benefits (t_species_id t') (t_dbh_in t') = Inr (t_benefits t')
       \<and> t_id t' = t_id t"
  using assms update_body_success_snapshot [OF assms(2)] update_body_keeps_id [OF assms(2)]
  by (simp add: update_planted_tree_def)

lemma update_planted_tree_raises:
  assumes "dict_get (planted_trees sc) k = Some t" and "update_body payload t = (Some e, t')"
  shows "update_planted_tree sc k payload =
           (Inl e, sc\<lparr> planted_trees := dict_set (planted_trees sc) k t' \<rparr>)"
  using assms by (simp add: update_planted_tree_def)

lemma update_body_patch_unknown_species:
  "update_body patch_unknown_species ex_tree_a =
     (Some (HTTPException 400 (Text ''Unknown species_id'')), ex_tree_a\<lparr> t_dbh_in := 10 \<rparr>)"
  by (simp add: update_body_def then_stmt_def assign_lon_def assign_lat_def assign_dbh_in_def
      assign_planting_year_def assign_species_id_def patch_unknown_species_def
      json_float_def json_text_def SPECIES_BY_ID_oak)

text \<open>
  Claim C1, on the example. The stored tree has diameter 2 and the snapshot of diameter 2.
  An update with \<^verbatim>\<open>dbh_in\<close> 10 and the unknown species \<^verbatim>\<open>oak\<close> raises the
  400 error \<^verbatim>\<open>Unknown species_id\<close>, and the stored tree then has diameter 10 and
  still the snapshot of diameter 2: its carbon is 6, that of its species and diameter is 30.
\<close>

theorem update_planted_tree_failure_keeps_assignments:
  "planted_trees ex_sc1 = [(''planted_1700000000100_1'', ex_tree_a)]
   \<and> annual_benefits (t_species_id ex_tree_a) (t_dbh_in ex_tree_a) = Inr (t_benefits ex_tree_a)
   \<and> fst (update_planted_tree ex_sc1 ''planted_1700000000100_1'' patch_unknown_species)
       = Inl (HTTPException 400 (Text ''Unknown species_id''))
   \<and> planted_trees
        (snd (update_planted_tree ex_sc1 ''planted_1700000000100_1'' patch_unknown_species))
       = [(''planted_1700000000100_1'', ex_tree_a\<lparr> t_dbh_in := 10 \<rparr>)]
   \<and> t_dbh_in ex_tree_a = 2
   \<and> b_carbon_kg_per_year (t_benefits (ex_tree_a\<lparr> t_dbh_in := 10 \<rparr>)) = 6
   \<and> map_sum id b_carbon_kg_per_year
        (annual_benefits (t_species_id (ex_tree_a\<lparr> t_dbh_in := 10 \<rparr>))
                         (t_dbh_in (ex_tree_a\<lparr> t_dbh_in := 10 \<rparr>))) = Inr 30"
proof -
  have 1: "update_planted_tree ex_sc1 ''planted_1700000000100_1'' patch_unknown_species =
     (Inl (HTTPException 400 (Text ''Unknown species_id'')),
      ex_sc1\<lparr> planted_trees := [(''planted_1700000000100_1'', ex_tree_a\<lparr> t_dbh_in := 10 \<rparr>)] \<rparr>)"
    by (simp add: update_planted_tree_def ex_sc1_trees dict_get_def
        update_body_patch_unknown_species)
  have 2: "annual_benefits (t_species_id ex_tree_a) (t_dbh_in ex_tree_a)
       = Inr (t_benefits ex_tree_a)"
    by (simp add: ex_tree_a_def annual_benefits_red_maple_2)
  have 3: "map_sum id b_carbon_kg_per_year
        (annual_benefits (t_species_id (ex_tree_a\<lparr> t_dbh_in := 10 \<rparr>))
                         (t_dbh_in (ex_tree_a\<lparr> t_dbh_in := 10 \<rparr>))) = Inr 30"
    by (simp add: ex_tree_a_def annual_benefits_red_maple_10)
  have 4: "t_dbh_in ex_tree_a = 2"
    and 5: "b_carbon_kg_per_year (t_benefits (ex_tree_a\<lparr> t_dbh_in := 10 \<rparr>)) = 6"
    by (simp_all add: ex_tree_a_def)
  show ?thesis
    by (intro conjI) (rule ex_sc1_trees 2 3 4 5 | simp add: 1)+
qed

subsection \<open>The claims with hypotheses, on the example requests\<close>

theorem add_planted_tree_required_and_defaults_witness:
  "payload_bad_lat ''lat'' = Some (json_text ''north'')
   \<and> py_float (json_text ''north'') = Inl ValueError
   \<and> add_planted_tree ex_now_a ex_sc0 payload_bad_lat
       = (Inl (HTTPException 400 (BadPayload ValueError)), ex_sc0)
   \<and> payload_a ''species_id'' = None \<and> payload_a ''dbh_in'' = None
   \<and> payload_a ''planting_year'' = None
   \<and> fst (add_planted_tree ex_now_a ex_sc0 payload_a) = Inr ex_tree_a
   \<and> t_species_id ex_tree_a = ''red_maple'' \<and> t_dbh_in ex_tree_a = 2.0
   \<and> t_planting_year ex_tree_a = 2026"
proof -
  have bad: "add_fields payload_bad_lat = Inl ValueError"
    by (simp add: add_fields_def payload_bad_lat_def payload_item_def json_float_def
        json_text_def)
  have 1: "add_planted_tree ex_now_a ex_sc0 payload_bad_lat
       = (Inl (HTTPException 400 (BadPayload ValueError)), ex_sc0)"
    by (rule add_planted_tree_bad_payload [OF bad])
  have 2: "fst (add_planted_tree ex_now_a ex_sc0 payload_a) = Inr ex_tree_a"
    by (simp add: add_example_a)
  have 3: "payload_bad_lat ''lat'' = Some (json_text ''north'')"
    "py_float (json_text ''north'') = Inl ValueError"
    "payload_a ''species_id'' = None" "payload_a ''dbh_in'' = None"
    "payload_a ''planting_year'' = None"
    "t_species_id ex_tree_a = ''red_maple''" "t_dbh_in ex_tree_a = 2.0"
    "t_planting_year ex_tree_a = 2026"
    by (simp_all add: payload_bad_lat_def payload_a_def json_text_def ex_tree_a_def)
  from add_planted_tree_required_and_defaults [of payload_bad_lat ex_now_a ex_sc0]
    add_planted_tree_required_and_defaults [of payload_a ex_now_a ex_sc0] 1 2 3
  show ?thesis by (intro conjI) (rule 1 2 3)+
qed

theorem delete_planted_tree_idempotent_witness:
  "dict_wf (planted_trees ex_sc2)
   \<and> dict_contains (planted_trees ex_sc2) ''planted_1700000000100_1''
   \<and> delete_planted_tree ex_sc2 ''planted_1700000000100_1''
       = (Inr (), ex_sc2\<lparr> planted_trees := [(''planted_1700000000250_2'', ex_tree_b)] \<rparr>)
   \<and> \<not> dict_contains (planted_trees ex_sc2) ''planted_1700000000100_3''
   \<and> delete_planted_tree ex_sc2 ''planted_1700000000100_3'' = (Inr (), ex_sc2)"
proof -
  have wf: "dict_wf (planted_trees ex_sc2)"
    by (simp add: ex_sc2_trees dict_wf_def)
  from delete_planted_tree_idempotent [OF wf, of "''planted_1700000000100_1''"]
    delete_planted_tree_idempotent [OF wf, of "''planted_1700000000100_3''"] wf
  show ?thesis
    by (simp add: delete_planted_tree_def ex_sc2_trees dict_contains_def dict_del_def)
qed

lemma species_valid_ex_sc2: "species_valid ex_sc2"
  by (simp add: species_valid_def ex_sc2_trees dict_values_def ex_tree_a_def ex_tree_b_def
      SPECIES_BY_ID_red_maple SPECIES_BY_ID_london_plane)

lemma project_tree_red_maple_2_10:
  "project_tree ''red_maple'' 2 10 =
     Inr \<lparr> b_canopy_radius_m = 99/40, b_canopy_area_m2 = canopy_area_m2 (99/40),
           b_carbon_kg_per_year = 33/2,
           b_stormwater_l_per_year = 45 * canopy_area_m2 (99/40),
           b_pollution_g_per_year = 12 * canopy_area_m2 (99/40) \<rparr>"
  by (simp add: project_tree_catalog [OF SPECIES_BY_ID_red_maple]
      annual_benefits_catalog [OF SPECIES_BY_ID_red_maple] red_maple_def)

lemma project_tree_london_plane_3_10:
  "project_tree ''london_plane'' 3 10 =
     Inr \<lparr> b_canopy_radius_m = 22/5, b_canopy_area_m2 = canopy_area_m2 (22/5),
           b_carbon_kg_per_year = 168/5,
           b_stormwater_l_per_year = 55 * canopy_area_m2 (22/5),
           b_pollution_g_per_year = 14 * canopy_area_m2 (22/5) \<rparr>"
  by (simp add: project_tree_catalog [OF SPECIES_BY_ID_london_plane]
      annual_benefits_catalog [OF SPECIES_BY_ID_london_plane] london_plane_def)

lemma scenario_projection_example:
  "fst (scenario_projection ex_sc2 10) =
     Inr \<lparr> r_horizon_years = 10,
           r_total = \<lparr> carbon_kg_per_year = 0 + 33/2 + 168/5,
             stormwater_l_per_year =
               0 + 45 * canopy_area_m2 (99/40) + 55 * canopy_area_m2 (22/5),
             pollution_g_per_year =
               0 + 12 * canopy_area_m2 (99/40) + 14 * canopy_area_m2 (22/5),
             canopy_area_m2_total = 0 + canopy_area_m2 (99/40) + canopy_area_m2 (22/5) \<rparr>,
           r_per_tree =
             [\<lparr> p_id = ''planted_1700000000100_1'',
                projection = \<lparr> b_canopy_radius_m = 99/40,
                  b_canopy_area_m2 = canopy_area_m2 (99/40), b_carbon_kg_per_year = 33/2,
                  b_stormwater_l_per_year = 45 * canopy_area_m2 (99/40),
                  b_pollution_g_per_year = 12 * canopy_area_m2 (99/40) \<rparr> \<rparr>,
              \<lparr> p_id = ''planted_1700000000250_2'',
                projection = \<lparr> b_canopy_radius_m = 22/5,
                  b_canopy_area_m2 = canopy_area_m2 (22/5), b_carbon_kg_per_year = 168/5,
                  b_stormwater_l_per_year = 55 * canopy_area_m2 (22/5),
                  b_pollution_g_per_year = 14 * canopy_area_m2 (22/5) \<rparr> \<rparr>] \<rparr>"
  by (simp add: scenario_projection_def ex_sc2_trees dict_values_def ex_tree_a_def
      ex_tree_b_def project_tree_red_maple_2_10 project_tree_london_plane_3_10)

theorem scenario_projection_totals_witness:
  "(7::int) \<notin> {5, 10, 15, 20}
   \<and> fst (scenario_projection ex_sc2 7)
       = Inl (HTTPException 400 (Text ''horizon must be one of 5,10,15,20''))
   \<and> (10::int) \<in> {5, 10, 15, 20} \<and> species_valid ex_sc2
   \<and> map_sum id (\<lambda>r. carbon_kg_per_year (r_total r)) (fst (scenario_projection ex_sc2 10))
       = Inr (501/10)
   \<and> map_sum id (\<lambda>r. map p_id (r_per_tree r)) (fst (scenario_projection ex_sc2 10))
       = Inr [''planted_1700000000100_1'', ''planted_1700000000250_2'']"
proof -
  have 1: "(7::int) \<notin> {5, 10, 15, 20}" and 2: "(10::int) \<in> {5, 10, 15, 20}" by simp_all
  have 3: "fst (scenario_projection ex_sc2 7)
       = Inl (HTTPException 400 (Text ''horizon must be one of 5,10,15,20''))"
    using scenario_projection_totals [of 7 ex_sc2] 1 by blast
  have 4: "map_sum id (\<lambda>r. carbon_kg_per_year (r_total r)) (fst (scenario_projection ex_sc2 10))
       = Inr (501/10)"
    by (simp add: scenario_projection_example)
  have 5: "map_sum id (\<lambda>r. map p_id (r_per_tree r)) (fst (scenario_projection ex_sc2 10))
       = Inr [''planted_1700000000100_1'', ''planted_1700000000250_2'']"
    by (simp add: scenario_projection_example)
  from scenario_projection_totals [of 10 ex_sc2]
  show ?thesis by (intro conjI) (rule 1 2 3 4 5 species_valid_ex_sc2)+
qed

subsection \<open>What every handler keeps\<close>

lemma species_valid_initial: "species_valid (SCENARIO now)"
  by (simp add: species_valid_def SCENARIO_def dict_values_def)

lemma list_all_dict_set:
  assumes "list_all P (dict_values d)" and "P v"
  shows "list_all P (dict_values (dict_set d k v))"
  using assms set_dict_values_dict_set [of d k v] by (auto simp: list_all_iff)

lemma list_all_dict_del:
  "list_all P (dict_values d) \<Longrightarrow> list_all P (dict_values (dict_del d k))"
  by (auto simp: list_all_iff dict_values_def dict_del_def)

lemma species_valid_add:
  assumes "species_valid sc"
  shows "species_valid (snd (add_planted_tree now sc payload))"
proof (cases "add_fields payload")
  case (Inl e)
  then show ?thesis using assms by (simp add: add_planted_tree_bad_payload)
next
  case (Inr r)
  obtain lon lat sid dbh yr where r: "r = (lon, lat, sid, dbh, yr)" by (cases r)
  show ?thesis
  proof (cases "SPECIES_BY_ID sid")
    case None
    then show ?thesis using assms Inr r by (simp add: add_planted_tree_unknown_species)
  next
    case (Some s)
    then have v: "SPECIES_BY_ID sid \<noteq> None" by simp
    from annual_benefits_total [OF v] obtain b where b: "annual_benefits sid dbh = Inr b"
      by blast
    from Inr r have f: "add_fields payload = Inr (lon, lat, sid, dbh, yr)" by simp
    show ?thesis
      using assms v
      by (simp add: add_planted_tree_success [OF f b v] species_valid_def list_all_dict_set)
  qed
qed

lemma dict_get_in_values: "dict_get d k = Some v \<Longrightarrow> v \<in> set (dict_values d)"
  by (auto simp: dict_get_def dict_values_def dest: map_of_SomeD intro: rev_image_eqI)

lemma species_valid_update:
  assumes "species_valid sc"
  shows "species_valid (snd (update_planted_tree sc k payload))"
proof (cases "dict_get (planted_trees sc) k")
  case None
  then show ?thesis using assms by (simp add: update_planted_tree_not_found)
next
  case (Some t)
  obtain r t' where run: "update_body payload t = (r, t')" by (cases "update_body payload t")
  from assms dict_get_in_values [OF Some] have "SPECIES_BY_ID (t_species_id t) \<noteq> None"
    by (simp add: species_valid_def list_all_iff)
  with run have "SPECIES_BY_ID (t_species_id t') \<noteq> None"
    by (rule update_body_keeps_species_valid)
  then show ?thesis
    using assms by (simp add: update_planted_tree_def Some run species_valid_def
        list_all_dict_set)
qed

lemma species_valid_delete:
  "species_valid sc \<Longrightarrow> species_valid (snd (delete_planted_tree sc k))"
  by (simp add: delete_planted_tree_def species_valid_def list_all_dict_del)

lemma dict_wf_initial: "dict_wf (planted_trees (SCENARIO now))"
  by (simp add: dict_wf_def SCENARIO_def)

lemma dict_wf_add:
  "dict_wf (planted_trees sc) \<Longrightarrow> dict_wf (planted_trees (snd (add_planted_tree now sc payload)))"
  by (auto simp: add_planted_tree_def Let_def dict_wf_dict_set split: sum.splits prod.splits)

lemma dict_wf_update:
  "dict_wf (planted_trees sc) \<Longrightarrow> dict_wf (planted_trees (snd (update_planted_tree sc k payload)))"
  by (auto simp: update_planted_tree_def dict_wf_dict_set split: option.splits prod.splits)

lemma dict_wf_delete:
  "dict_wf (planted_trees sc) \<Longrightarrow> dict_wf (planted_trees (snd (delete_planted_tree sc k)))"
  by (simp add: delete_planted_tree_def dict_wf_dict_del)

end
